theory Spec2Isabelle
  imports Complex_Main "HOL-Library.Word"
begin

section \<open>The Leap Motion adapter of the viewer (llleapmotioncontroller.cpp)\<close>

text \<open>
  The adapter is a listener object (\<open>LLLMImpl\<close>) with four SDK callbacks and one
  per-viewer-frame poll, \<open>stepFrame\<close>, which hands the device's hand list to one of five
  mode functions.  The embedding passes the object's fields explicitly and returns, next to
  the updated object, the list of calls made on the host (agent, camera, gesture manager,
  log) in the order the code makes them.
\<close>

subsection \<open>Scalars and device data\<close>

text \<open>
  \<open>F32\<close> values are the rationals they denote; the device is taken to deliver finite
  numbers.  A quotient by zero is the one place where the code can leave the finite numbers;
  it is modelled separately below.  \<open>S32\<close> values are integers: every \<open>S32\<close> of
  this file is a list length, a setting, or one of three small counters.
\<close>

type_synonym F32 = rat
type_synonym S32 = int
type_synonym int64_t = "64 word"

text \<open>Seconds on the clock that the timers of the host read.\<close>

type_synonym seconds = rat

datatype Vector = Vector (vec_x: F32) (vec_y: F32) (vec_z: F32)

definition vec_add :: "Vector \<Rightarrow> Vector \<Rightarrow> Vector" where
  "vec_add a b = Vector (vec_x a + vec_x b) (vec_y a + vec_y b) (vec_z a + vec_z b)"

record Finger =
  direction :: Vector
  tipPosition :: Vector
  tipVelocity :: Vector

record Hand =
  fingers :: "Finger list"
  palmPosition :: Vector
  palmNormal :: Vector
  sphereRadius :: F32
  sphereCenter :: Vector

type_synonym HandList = "Hand list"

text \<open>
  Modelled from the spec: \<open>llabs\<close>, declared in a header of the viewer that is not
  among the sources.  The spec describes the modes as threshold comparisons on the
  components of device vectors; \<open>llabs\<close> is the absolute value, of the type of its
  argument.
\<close>

definition llabs :: "F32 \<Rightarrow> F32" where
  "llabs a = (if a \<ge> 0 then a else - a)"

text \<open>The conversion of a non-negative \<open>F32\<close> to \<open>S32\<close> drops the fraction.\<close>

definition F32_to_S32 :: "F32 \<Rightarrow> S32" where
  "F32_to_S32 a = (if 0 \<le> a then \<lfloor>a\<rfloor> else \<lceil>a\<rceil>)"

definition LM_DEAD_ZONE :: F32 where
  "LM_DEAD_ZONE = 20"

definition LM_ORBIT_RATE_FACTOR :: F32 where
  "LM_ORBIT_RATE_FACTOR = 80"

definition LLLEAP_YAW_INTERVAL :: F32 where
  "LLLEAP_YAW_INTERVAL = 75 / 1000"

definition LLLEAP_CHAT_MSG_INTERVAL :: F32 where
  "LLLEAP_CHAT_MSG_INTERVAL = 200 / 1000"

definition LLLEAP_GESTURE_INTERVAL :: F32 where
  "LLLEAP_GESTURE_INTERVAL = 3"

subsection \<open>The interval timer of the host\<close>

text \<open>
  Modelled from the spec: \<open>LLTimer\<close> (lltimer.h and lltimer.cpp of the viewer, which
  are not among the sources).  The spec calls the three timers interval timers used to
  rate-limit outbound actions: a timer holds the time at which it expires;
  \<open>setTimerExpirySec\<close> puts that time an interval after the present;
  \<open>checkExpirationAndReset\<close> answers whether the timer has expired and, when it has,
  starts the next interval at the present.  A timer that has not expired is left as it is.
\<close>

record LLTimer =
  mExpiration :: seconds

definition setTimerExpirySec :: "F32 \<Rightarrow> seconds \<Rightarrow> LLTimer \<Rightarrow> LLTimer" where
  "setTimerExpirySec expiration now t = t\<lparr>mExpiration := now + expiration\<rparr>"

definition hasExpired :: "seconds \<Rightarrow> LLTimer \<Rightarrow> bool" where
  "hasExpired now t = (\<not> now < mExpiration t)"

definition checkExpirationAndReset :: "F32 \<Rightarrow> seconds \<Rightarrow> LLTimer \<Rightarrow> bool \<times> LLTimer" where
  "checkExpirationAndReset expiration now t =
     (if now < mExpiration t then (False, t)
      else (True, t\<lparr>mExpiration := now + expiration\<rparr>))"

subsection \<open>Calls on the host\<close>

datatype mode_fn =
    ModeFlyingControlTest
  | ModeStreamDataToSL
  | ModeGestureDetection1
  | ModeMoveAndCamTest1
  | ModeDumpDebugInfo

text \<open>
  Modelled from the spec: the agent control flags (llagentconstants.h is not among the
  sources).  Only their names matter here; a bitwise or of flags is the list of its flags.
\<close>

datatype control_flag =
    AGENT_CONTROL_AT_POS
  | AGENT_CONTROL_FAST_AT
  | AGENT_CONTROL_UP_POS
  | AGENT_CONTROL_UP_NEG
  | AGENT_CONTROL_FAST_UP

datatype fault = DivideByZero

text \<open>
  One event per call that leaves the adapter.  \<open>Invoked f\<close> marks the entry into mode
  function \<open>f\<close>.  \<open>Log\<close> carries the fixed text of an \<open>llinfos\<close> line; the numbers
  streamed after it are left out.  \<open>ChatFormatted\<close> is the construction of a chat message
  (its fixed text and the numbers streamed into it); \<open>SendChat\<close> stands for
  \<open>LLNearbyChatBar::sendChatFromViewer\<close>, whose two calls are commented out in the code.
  \<open>Fault DivideByZero\<close> marks the evaluation of a quotient whose divisor is zero: an
  \<open>F32\<close> division does not trap, so the code goes on after it.
\<close>

datatype event =
    is_Invoked: Invoked mode_fn
  | is_Log: Log string
  | is_SetFlying: SetFlying bool
  | is_SetControlFlags: SetControlFlags "control_flag list"
  | is_ClearControlFlags: ClearControlFlags "control_flag list"
  | is_MoveYaw: MoveYaw F32
  | is_MoveLeftNudge: MoveLeftNudge F32
  | is_UnlockView: UnlockView
  | is_SetOrbitLeftKey: SetOrbitLeftKey F32
  | is_SetOrbitRightKey: SetOrbitRightKey F32
  | is_SetOrbitInKey: SetOrbitInKey F32
  | is_SetOrbitOutKey: SetOrbitOutKey F32
  | is_SetOrbitUpKey: SetOrbitUpKey F32
  | is_SetOrbitDownKey: SetOrbitDownKey F32
  | is_TriggerGesture: TriggerGesture string
  | is_ChatFormatted: ChatFormatted string "F32 list"
  | is_SendChat: SendChat string
  | is_Fault: Fault fault

text \<open>The events that act on the avatar, the camera, the chat or the gestures.\<close>

definition is_host_action :: "event \<Rightarrow> bool" where
  "is_host_action e = (\<not> is_Invoked e \<and> \<not> is_Log e \<and> \<not> is_ChatFormatted e \<and> \<not> is_Fault e)"

subsection \<open>The listener object\<close>

text \<open>
  The members of \<open>LLLMImpl\<close>, followed by the three function-local statics of the mode
  functions (\<open>sLMFlyingHysteresis\<close> of \<open>modeFlyingControlTest\<close>,
  \<open>trigger_direction\<close> and \<open>last_num_fingers\<close> of \<open>modeGestureDetection1\<close>), which
  live as long as the program.  \<open>mLMController\<close> is a pointer: \<open>None\<close> is \<open>NULL\<close>.
\<close>

record LLLMImpl =
  mLMController :: "nat option"
  mLMConnected :: bool
  mFrameAvailable :: bool
  mCurrentFrameID :: int64_t
  mYawTimer :: LLTimer
  mChatMsgTimer :: LLTimer
  mGestureTimer :: LLTimer
  sLMFlyingHysteresis :: S32
  trigger_direction :: S32
  last_num_fingers :: S32

text \<open>The constructor, at time \<open>now\<close>, with \<open>c\<close> the address of the new controller.\<close>

definition LLLMImpl_new :: "seconds \<Rightarrow> nat \<Rightarrow> LLLMImpl" where
  "LLLMImpl_new now c =
     \<lparr> mLMController = Some c,
       mLMConnected = False,
       mFrameAvailable = False,
       mCurrentFrameID = 0,
       mYawTimer = setTimerExpirySec LLLEAP_YAW_INTERVAL now \<lparr>mExpiration = 0\<rparr>,
       mChatMsgTimer = setTimerExpirySec LLLEAP_CHAT_MSG_INTERVAL now \<lparr>mExpiration = 0\<rparr>,
       mGestureTimer = setTimerExpirySec LLLEAP_GESTURE_INTERVAL now \<lparr>mExpiration = 0\<rparr>,
       sLMFlyingHysteresis = 0,
       trigger_direction = - 1,
       last_num_fingers = 0 \<rparr>"

subsection \<open>The SDK callbacks\<close>

definition onInit :: "LLLMImpl \<Rightarrow> LLLMImpl \<times> event list" where
  "onInit s = (s, [Log ''Initialized''])"

definition onConnect :: "LLLMImpl \<Rightarrow> LLLMImpl \<times> event list" where
  "onConnect s = (s\<lparr>mLMConnected := True, mCurrentFrameID := 0\<rparr>, [Log ''Connected''])"

definition onDisconnect :: "LLLMImpl \<Rightarrow> LLLMImpl \<times> event list" where
  "onDisconnect s = (s\<lparr>mLMConnected := False\<rparr>, [Log ''Disconnected''])"

text \<open>\<open>frame_id\<close> is the id of the controller's most recent frame.\<close>

definition onFrame :: "int64_t \<Rightarrow> LLLMImpl \<Rightarrow> LLLMImpl \<times> event list" where
  "onFrame frame_id s =
     (if mLMConnected s then
        (if frame_id \<noteq> mCurrentFrameID s
         then (s\<lparr>mCurrentFrameID := frame_id, mFrameAvailable := True\<rparr>, [])
         else (s, []))
      else (s, []))"

subsection \<open>Quotients by a count\<close>

text \<open>
  \<open>a / n\<close> for an \<open>F32\<close> \<open>a\<close> and an \<open>S32\<close> \<open>n\<close>.  With \<open>n = 0\<close> the
  quotient is no finite number (\<open>None\<close>; the code only ever divides a zero sum by a zero
  count, which gives a NaN) and the division is recorded as a fault.
\<close>

definition F32_div :: "F32 \<Rightarrow> S32 \<Rightarrow> F32 option \<times> event list" where
  "F32_div a n =
     (if n = 0 then (None, [Fault DivideByZero]) else (Some (a / of_int n), []))"

text \<open>The expression \<open>Leap::Vector(v.x/n, v.y/n, v.z/n)\<close>.\<close>

definition Vector_div :: "Vector \<Rightarrow> S32 \<Rightarrow> Vector option \<times> event list" where
  "Vector_div v n =
     (let (qx, ex) = F32_div (vec_x v) n;
          (qy, ey) = F32_div (vec_y v) n;
          (qz, ez) = F32_div (vec_z v) n
      in (case (qx, qy, qz) of
            (Some a, Some b, Some c) \<Rightarrow> Some (Vector a b c)
          | _ \<Rightarrow> None,
          ex @ ey @ ez))"

subsection \<open>Mode 0: modeFlyingControlTest\<close>

text \<open>Number of fingers controls flying on / off.\<close>

definition modeFlyingControlTest_onoff :: "bool \<Rightarrow> S32 \<Rightarrow> LLLMImpl \<Rightarrow> LLLMImpl \<times> event list" where
  "modeFlyingControlTest_onoff agent_is_flying num_fingers s =
     (if num_fingers = 0 \<and> agent_is_flying then
        (if sLMFlyingHysteresis s > 0
         then (s\<lparr>sLMFlyingHysteresis := sLMFlyingHysteresis s - 1\<rparr>, [])
         else (s, [Log ''LM stop flying'', SetFlying False]))
      else if num_fingers > 2 \<and> \<not> agent_is_flying then
        (s\<lparr>sLMFlyingHysteresis := 5\<rparr>, [Log ''LM start flying'', SetFlying True])
      else (s, []))"

text \<open>Radius of ball controls forward motion.\<close>

definition modeFlyingControlTest_forward :: "F32 \<Rightarrow> event list" where
  "modeFlyingControlTest_forward ball_radius =
     (if ball_radius > 110 then [SetControlFlags [AGENT_CONTROL_AT_POS, AGENT_CONTROL_FAST_AT]]
      else if ball_radius > 85 then [SetControlFlags [AGENT_CONTROL_AT_POS]]
      else [ClearControlFlags [AGENT_CONTROL_AT_POS]])"

text \<open>Height of palm controls moving up and down.\<close>

definition modeFlyingControlTest_updown :: "Vector \<Rightarrow> event list" where
  "modeFlyingControlTest_updown palm_pos =
     (if vec_y palm_pos > 260 then [SetControlFlags [AGENT_CONTROL_UP_POS, AGENT_CONTROL_FAST_UP]]
      else if vec_y palm_pos > 200 then [SetControlFlags [AGENT_CONTROL_UP_POS]]
      else if vec_y palm_pos < 60 then [SetControlFlags [AGENT_CONTROL_FAST_UP, AGENT_CONTROL_UP_NEG]]
      else if vec_y palm_pos < 120 then [SetControlFlags [AGENT_CONTROL_UP_NEG]]
      else [ClearControlFlags [AGENT_CONTROL_FAST_UP, AGENT_CONTROL_UP_POS, AGENT_CONTROL_UP_NEG]])"

text \<open>Palm normal going left / right controls direction.\<close>

definition modeFlyingControlTest_yaw :: "seconds \<Rightarrow> Vector \<Rightarrow> LLLMImpl \<Rightarrow> LLLMImpl \<times> event list" where
  "modeFlyingControlTest_yaw now palm_normal s =
     (let (expired, t) = checkExpirationAndReset LLLEAP_YAW_INTERVAL now (mYawTimer s)
      in if expired then
           (if vec_x palm_normal > 4 / 10 then (s\<lparr>mYawTimer := t\<rparr>, [MoveYaw 1])
            else if vec_x palm_normal < - (4 / 10) then (s\<lparr>mYawTimer := t\<rparr>, [MoveYaw (- 1)])
            else (s\<lparr>mYawTimer := t\<rparr>, []))
         else (s, []))"

text \<open>
  \<open>agent_is_flying\<close> is what \<open>gAgent.getFlying()\<close> answers at the start of the call;
  it is read once, so the flying controls still run in the call that stops the flight.
\<close>

definition modeFlyingControlTest :: "seconds \<Rightarrow> bool \<Rightarrow> HandList \<Rightarrow> LLLMImpl \<Rightarrow> LLLMImpl \<times> event list" where
  "modeFlyingControlTest now agent_is_flying hands s =
     (let numHands = int (length hands) in
      if numHands = 0 \<and> agent_is_flying \<and> sLMFlyingHysteresis s > 0 then
        (let s1 = s\<lparr>sLMFlyingHysteresis := sLMFlyingHysteresis s - 1\<rparr> in
         if sLMFlyingHysteresis s1 = 0
         then (s1, [Invoked ModeFlyingControlTest,
                    Log ''LM stop flying - look ma, no hands!'', SetFlying False])
         else (s1, [Invoked ModeFlyingControlTest]))
      else if numHands = 1 then
        (let hand = hands ! 0;
             finger_list = fingers hand;
             num_fingers = int (length finger_list);
             palm_pos = palmPosition hand;
             palm_normal = palmNormal hand;
             ball_radius = sphereRadius hand;
             (s1, ev1) = modeFlyingControlTest_onoff agent_is_flying num_fingers s
         in if agent_is_flying then
              (let (s2, ev2) = modeFlyingControlTest_yaw now palm_normal s1
               in (s2, Invoked ModeFlyingControlTest # ev1
                         @ modeFlyingControlTest_forward ball_radius
                         @ modeFlyingControlTest_updown palm_pos @ ev2))
            else (s1, Invoked ModeFlyingControlTest # ev1))
      else (s, [Invoked ModeFlyingControlTest]))"

subsection \<open>Mode 1: modeStreamDataToSL\<close>

text \<open>
  The timer is asked only when there is exactly one hand (\<open>&&\<close> evaluates its right side
  only then), and it changes only when the answer is yes.  The message is built and then
  dropped: the line that would send it is a comment.
\<close>

definition modeStreamDataToSL :: "seconds \<Rightarrow> HandList \<Rightarrow> LLLMImpl \<Rightarrow> LLLMImpl \<times> event list" where
  "modeStreamDataToSL now hands s =
     (let numHands = int (length hands) in
      if numHands = 1 \<and> fst (checkExpirationAndReset LLLEAP_CHAT_MSG_INTERVAL now (mChatMsgTimer s)) then
        (let hand = hands ! 0;
             palm_pos = palmPosition hand;
             palm_normal = palmNormal hand;
             ball_radius = sphereRadius hand;
             ball_center = sphereCenter hand
         in (s\<lparr>mChatMsgTimer := snd (checkExpirationAndReset LLLEAP_CHAT_MSG_INTERVAL now (mChatMsgTimer s))\<rparr>,
             [Invoked ModeStreamDataToSL,
              ChatFormatted ''/2343 LM,''
                [vec_x palm_pos, vec_y palm_pos, vec_z palm_pos,
                 vec_x palm_normal, vec_y palm_normal, vec_z palm_normal,
                 vec_x ball_center, vec_y ball_center, vec_z ball_center, ball_radius]]))
      else (s, [Invoked ModeStreamDataToSL]))"

subsection \<open>Mode 2: modeGestureDetection1\<close>

text \<open>
  One finger.  \<open>abs_z_dir\<close> is declared \<open>S32\<close> here, so the absolute value loses its
  fraction before it is compared; the comparison only decides a log line.
\<close>

definition modeGestureDetection1_one_finger :: "Finger list \<Rightarrow> LLLMImpl \<Rightarrow> LLLMImpl \<times> event list" where
  "modeGestureDetection1_one_finger finger_list s =
     (let finger = finger_list ! 0;
          finger_dir = direction finger;
          abs_z_dir = F32_to_S32 (llabs (vec_z finger_dir));
          ev1 = (if vec_z finger_dir < - (1 / 2)
                    \<and> of_int abs_z_dir > llabs (vec_x finger_dir)
                    \<and> of_int abs_z_dir > llabs (vec_y finger_dir)
                 then [Log ''finger direction is ''] else [])
      in if trigger_direction s \<noteq> - 1
         then (s\<lparr>trigger_direction := - 1\<rparr>, ev1 @ [Log ''Reset trigger_direction - one finger''])
         else (s, ev1))"

text \<open>
  Two fingers: the first is the barrel, the second the thumb.  The chat timer is the last
  operand of the firing condition, so it is asked only when the other three hold, and it
  changes only when it answers yes.
\<close>

definition modeGestureDetection1_two_fingers :: "seconds \<Rightarrow> Finger list \<Rightarrow> LLLMImpl \<Rightarrow> LLLMImpl \<times> event list" where
  "modeGestureDetection1_two_fingers now finger_list s =
     (let barrel_finger = finger_list ! 0;
          barrel_finger_dir = direction barrel_finger;
          abs_z_dir = llabs (vec_z barrel_finger_dir)
      in if vec_z barrel_finger_dir < - (1 / 2)
            \<and> abs_z_dir > llabs (vec_x barrel_finger_dir)
            \<and> abs_z_dir > llabs (vec_y barrel_finger_dir) then
           (let thumb_finger = finger_list ! 1;
                thumb_finger_dir = direction thumb_finger;
                thumb_finger_vel = tipVelocity thumb_finger
            in if vec_x thumb_finger_dir < vec_x barrel_finger_dir then
                 (if trigger_direction s < 0
                     \<and> vec_x thumb_finger_vel > 50
                     \<and> vec_z thumb_finger_vel < - 50
                     \<and> fst (checkExpirationAndReset LLLEAP_CHAT_MSG_INTERVAL now (mChatMsgTimer s))
                  then (s\<lparr>mChatMsgTimer :=
                             snd (checkExpirationAndReset LLLEAP_CHAT_MSG_INTERVAL now (mChatMsgTimer s)),
                           trigger_direction := 1\<rparr>,
                        [ChatFormatted ''/2343 LM2 gunfire'' [], Log ''Sent gunfire chat''])
                  else if trigger_direction s > 0
                     \<and> vec_x thumb_finger_vel < - 50
                     \<and> vec_z thumb_finger_vel > 50
                  then (s\<lparr>trigger_direction := - 1\<rparr>, [Log ''Reset trigger_direction''])
                  else (s, []))
               else (s, []))
         else if trigger_direction s \<noteq> - 1
         then (s\<lparr>trigger_direction := - 1\<rparr>, [Log ''Reset trigger_direction - hand pos''])
         else (s, []))"

text \<open>Five fingers, as many as the last time: trigger the gesture, if the timer allows.\<close>

definition modeGestureDetection1_five_fingers :: "seconds \<Rightarrow> LLLMImpl \<Rightarrow> LLLMImpl \<times> event list" where
  "modeGestureDetection1_five_fingers now s =
     (let (expired, t) = checkExpirationAndReset LLLEAP_GESTURE_INTERVAL now (mGestureTimer s)
      in if expired then (s\<lparr>mGestureTimer := t\<rparr>, [TriggerGesture ''/overhere''])
         else (s, []))"

definition modeGestureDetection1 :: "seconds \<Rightarrow> HandList \<Rightarrow> LLLMImpl \<Rightarrow> LLLMImpl \<times> event list" where
  "modeGestureDetection1 now hands s =
     (let numHands = int (length hands) in
      if numHands = 1 then
        (let hand = hands ! 0;
             finger_list = fingers hand;
             num_fingers = int (length finger_list);
             (s1, ev1) =
               (if num_fingers = 1 then modeGestureDetection1_one_finger finger_list s
                else if num_fingers = 2 then modeGestureDetection1_two_fingers now finger_list s
                else if num_fingers = 5 \<and> num_fingers = last_num_fingers s
                then modeGestureDetection1_five_fingers now s
                else (s, []))
         in (s1\<lparr>last_num_fingers := num_fingers\<rparr>, Invoked ModeGestureDetection1 # ev1))
      else (s, [Invoked ModeGestureDetection1]))"

subsection \<open>Mode 3: modeMoveAndCamTest1\<close>

text \<open>The loop over the fingers that adds up the tip positions.\<close>

definition sum_tipPosition :: "Finger list \<Rightarrow> Vector" where
  "sum_tipPosition finger_list = foldl (\<lambda>pos finger. vec_add pos (tipPosition finger)) (Vector 0 0 0) finger_list"

definition sum_direction :: "Finger list \<Rightarrow> Vector" where
  "sum_direction finger_list = foldl (\<lambda>d finger. vec_add d (direction finger)) (Vector 0 0 0) finger_list"

text \<open>1 finger - move avatar.\<close>

definition modeMoveAndCamTest1_one_finger :: "Vector \<Rightarrow> event list" where
  "modeMoveAndCamTest1_one_finger pos =
     (if vec_x pos < - LM_DEAD_ZONE then [MoveLeftNudge 1]
      else if vec_x pos > LM_DEAD_ZONE then [MoveLeftNudge (- 1)]
      else [])
     @ (if vec_y pos < - LM_DEAD_ZONE then [MoveYaw (- 1)]
        else if vec_y pos > LM_DEAD_ZONE then [MoveYaw 1]
        else [])"

text \<open>2 fingers - move camera around.\<close>

definition modeMoveAndCamTest1_two_fingers :: "Vector \<Rightarrow> event list" where
  "modeMoveAndCamTest1_two_fingers pos =
     (if vec_x pos < - LM_DEAD_ZONE
      then [UnlockView, SetOrbitLeftKey ((llabs (vec_x pos) - LM_DEAD_ZONE) / LM_ORBIT_RATE_FACTOR)]
      else if vec_x pos > LM_DEAD_ZONE
      then [UnlockView, SetOrbitRightKey ((vec_x pos - LM_DEAD_ZONE) / LM_ORBIT_RATE_FACTOR)]
      else [])
     @ (if vec_z pos < - LM_DEAD_ZONE
        then [UnlockView, SetOrbitInKey ((llabs (vec_z pos) - LM_DEAD_ZONE) / LM_ORBIT_RATE_FACTOR)]
        else if vec_z pos > LM_DEAD_ZONE
        then [UnlockView, SetOrbitOutKey ((vec_z pos - LM_DEAD_ZONE) / LM_ORBIT_RATE_FACTOR)]
        else [])
     @ (if vec_y pos < - LM_DEAD_ZONE
        then [UnlockView, SetOrbitUpKey ((llabs (vec_y pos) - LM_DEAD_ZONE) / LM_ORBIT_RATE_FACTOR)]
        else if vec_y pos > LM_DEAD_ZONE
        then [UnlockView, SetOrbitDownKey ((vec_y pos - LM_DEAD_ZONE) / LM_ORBIT_RATE_FACTOR)]
        else [])"

text \<open>
  The average is taken right after the loop, before the finger count is looked at.  Where
  the average is no finite vector every comparison with it fails, so neither branch acts.
\<close>

definition modeMoveAndCamTest1 :: "HandList \<Rightarrow> LLLMImpl \<Rightarrow> LLLMImpl \<times> event list" where
  "modeMoveAndCamTest1 hands s =
     (let numHands = int (length hands) in
      if numHands = 1 then
        (let hand = hands ! 0;
             finger_list = fingers hand;
             num_fingers = int (length finger_list);
             (pos, ev_div) = Vector_div (sum_tipPosition finger_list) num_fingers
         in (s, Invoked ModeMoveAndCamTest1 # ev_div
                  @ (if num_fingers = 1
                     then (case pos of Some p \<Rightarrow> modeMoveAndCamTest1_one_finger p | None \<Rightarrow> [])
                     else if num_fingers = 2
                     then (case pos of Some p \<Rightarrow> modeMoveAndCamTest1_two_fingers p | None \<Rightarrow> [])
                     else [])))
      else (s, [Invoked ModeMoveAndCamTest1]))"

subsection \<open>Mode 411: modeDumpDebugInfo\<close>

definition modeDumpDebugInfo :: "HandList \<Rightarrow> LLLMImpl \<Rightarrow> LLLMImpl \<times> event list" where
  "modeDumpDebugInfo hands s =
     (let numHands = int (length hands) in
      if numHands = 1 then
        (let hand = hands ! 0;
             finger_list = fingers hand;
             num_fingers = int (length finger_list);
             ev_fingers =
               (if num_fingers \<ge> 1 then
                  (let (pos, ev_pos) = Vector_div (sum_tipPosition finger_list) num_fingers;
                       (dir, ev_dir) = Vector_div (sum_direction finger_list) num_fingers
                   in map (\<lambda>finger. Log ''Finger '') finger_list
                        @ ev_pos @ ev_dir @ [Log ''Hand has ''])
                else [])
         in (s, Invoked ModeDumpDebugInfo # ev_fingers @ [Log ''Palm pos '', Log ''Ball pos '']))
      else (s, [Invoked ModeDumpDebugInfo]))"

subsection \<open>The poll of the viewer's main loop\<close>

text \<open>
  What one call of \<open>stepFrame\<close> reads from outside the object: the answer of
  \<open>gAgent.getFlying()\<close>, the debug setting \<open>LeapmotionTestMode\<close>, and the hands of the
  controller's most recent frame.
\<close>

record env =
  getFlying :: bool
  LeapmotionTestMode :: S32
  frame_hands :: HandList

definition stepFrame :: "seconds \<Rightarrow> env \<Rightarrow> LLLMImpl \<Rightarrow> LLLMImpl \<times> event list" where
  "stepFrame now e s =
     (if mLMController s \<noteq> None \<and> mFrameAvailable s \<and> mLMConnected s then
        (let s0 = s\<lparr>mFrameAvailable := False\<rparr>;
             hands = frame_hands e;
             controller_mode = LeapmotionTestMode e
         in if controller_mode = 0 then modeFlyingControlTest now (getFlying e) hands s0
            else if controller_mode = 1 then modeStreamDataToSL now hands s0
            else if controller_mode = 2 then modeGestureDetection1 now hands s0
            else if controller_mode = 3 then modeMoveAndCamTest1 hands s0
            else if controller_mode = 411 then modeDumpDebugInfo hands s0
            else (s0, []))
      else (s, []))"

subsection \<open>The public wrapper\<close>

record LLLeapMotionController =
  mController :: "LLLMImpl option"

text \<open>
  The startup states of the viewer are declared in llstartup.h, which is not among the
  sources; the state \<open>STATE_STARTED\<close> and the answer of \<open>LLStartUp::getStartupState()\<close>
  are therefore parameters, of any type.
\<close>

definition LLLeapMotionController_stepFrame ::
    "'startup \<Rightarrow> 'startup \<Rightarrow> seconds \<Rightarrow> env \<Rightarrow> LLLeapMotionController \<Rightarrow> LLLeapMotionController \<times> event list" where
  "LLLeapMotionController_stepFrame STATE_STARTED startup_state now e c =
     (case mController c of
        Some impl \<Rightarrow>
          (if STATE_STARTED = startup_state
           then (let (impl', evs) = stepFrame now e impl in (c\<lparr>mController := Some impl'\<rparr>, evs))
           else (c, []))
      | None \<Rightarrow> (c, []))"

subsection \<open>Sequences of calls\<close>

text \<open>
  The calls that reach the listener: the four callbacks of the SDK and the poll of the
  viewer.  A run is a list of calls, each with the time on the clock when it is made, and
  yields for each call the events it produced.
\<close>

datatype call =
    OnInit
  | OnConnect
  | OnDisconnect
  | is_OnFrame: OnFrame int64_t
  | is_StepFrame: StepFrame env

fun exec :: "seconds \<Rightarrow> call \<Rightarrow> LLLMImpl \<Rightarrow> LLLMImpl \<times> event list" where
  "exec now OnInit s = onInit s"
| "exec now OnConnect s = onConnect s"
| "exec now OnDisconnect s = onDisconnect s"
| "exec now (OnFrame frame_id) s = onFrame frame_id s"
| "exec now (StepFrame e) s = stepFrame now e s"

fun run :: "(seconds \<times> call) list \<Rightarrow> LLLMImpl \<Rightarrow> (seconds \<times> event list) list" where
  "run [] s = []"
| "run ((now, c) # cs) s = (now, snd (exec now c s)) # run cs (fst (exec now c s))"

subsection \<open>Notions used in the properties\<close>

text \<open>Kinds of events in the list that a call returns.\<close>

definition yaw_turn :: "event list \<Rightarrow> bool" where
  "yaw_turn evs = list_ex is_MoveYaw evs"

definition chat_attempt :: "event list \<Rightarrow> bool" where
  "chat_attempt evs = list_ex is_ChatFormatted evs"

definition gesture_triggered :: "event list \<Rightarrow> bool" where
  "gesture_triggered evs = list_ex is_TriggerGesture evs"

definition gunfire_attempt :: "event list \<Rightarrow> bool" where
  "gunfire_attempt evs = list_ex (\<lambda>e. e = ChatFormatted ''/2343 LM2 gunfire'' []) evs"

definition trigger_reset :: "event list \<Rightarrow> bool" where
  "trigger_reset evs =
     list_ex (\<lambda>e. e = Log ''Reset trigger_direction''
                \<or> e = Log ''Reset trigger_direction - one finger''
                \<or> e = Log ''Reset trigger_direction - hand pos'') evs"

definition flight_started :: "event list \<Rightarrow> bool" where
  "flight_started evs = list_ex (\<lambda>e. e = SetFlying True) evs"

definition flight_stopped :: "event list \<Rightarrow> bool" where
  "flight_stopped evs = list_ex (\<lambda>e. e = SetFlying False) evs"

text \<open>
  The direction test of \<open>modeGestureDetection1\<close> on the barrel finger: negative Z is
  into the screen, and it is the largest component.
\<close>

definition points_into_screen :: "Vector \<Rightarrow> bool" where
  "points_into_screen d =
     (vec_z d < - (1 / 2) \<and> llabs (vec_z d) > llabs (vec_x d) \<and> llabs (vec_z d) > llabs (vec_y d))"

text \<open>
  The hand lists on which \<open>modeGestureDetection1\<close> can take \<open>trigger_direction\<close>
  back to -1: one hand that shows one finger, or two fingers of which the barrel does not
  point into the screen, or two fingers of which the thumb is pulled back (velocity
  x below -50 and z above 50).
\<close>

definition reset_input :: "HandList \<Rightarrow> bool" where
  "reset_input hands =
     (length hands = 1 \<and>
      (length (fingers (hands ! 0)) = 1
       \<or> (length (fingers (hands ! 0)) = 2
           \<and> (if points_into_screen (direction (fingers (hands ! 0) ! 0))
               then vec_x (tipVelocity (fingers (hands ! 0) ! 1)) < - 50
                    \<and> vec_z (tipVelocity (fingers (hands ! 0) ! 1)) > 50
               else True))))"

text \<open>
  The stop condition of \<open>modeFlyingControlTest\<close>: the agent is flying and there is no
  hand, or one hand without fingers.
\<close>

definition stop_condition :: "bool \<Rightarrow> HandList \<Rightarrow> bool" where
  "stop_condition agent_is_flying hands =
     (agent_is_flying \<and>
      (length hands = 0 \<or> (length hands = 1 \<and> length (fingers (hands ! 0)) = 0)))"

text \<open>
  A sequence of evaluations of \<open>modeFlyingControlTest\<close>, each with the time, the
  answer of \<open>gAgent.getFlying()\<close> and the hand list it is given; the result lists the
  events of each evaluation.
\<close>

fun flying_evals :: "(seconds \<times> bool \<times> HandList) list \<Rightarrow> LLLMImpl \<Rightarrow> event list list" where
  "flying_evals [] s = []"
| "flying_evals ((now, agent_is_flying, hands) # rest) s =
     snd (modeFlyingControlTest now agent_is_flying hands s)
       # flying_evals rest (fst (modeFlyingControlTest now agent_is_flying hands s))"

text \<open>
  The number of polls in a run that find a frame to process: the calls of \<open>stepFrame\<close>
  made when the controller pointer is not null, the frame flag is set and the device is
  connected.
\<close>

fun polls_dispatched :: "(seconds \<times> call) list \<Rightarrow> LLLMImpl \<Rightarrow> nat" where
  "polls_dispatched [] s = 0"
| "polls_dispatched ((now, c) # cs) s =
     (if is_StepFrame c \<and> mLMController s \<noteq> None \<and> mFrameAvailable s \<and> mLMConnected s
      then 1 else 0)
       + polls_dispatched cs (fst (exec now c s))"

subsection \<open>Sample device data\<close>

text \<open>
  A finger that points into the screen and rests, a hand that carries the fingers
  \<open>fs\<close>, and the object right after construction at time 0, connected.
\<close>

definition still_finger :: Finger where
  "still_finger =
     \<lparr>direction = Vector 0 0 (- 1), tipPosition = Vector 0 0 0, tipVelocity = Vector 0 0 0\<rparr>"

definition hand_with :: "Finger list \<Rightarrow> Hand" where
  "hand_with fs =
     \<lparr>fingers = fs, palmPosition = Vector 0 150 0, palmNormal = Vector 0 (- 1) 0,
      sphereRadius = 100, sphereCenter = Vector 0 100 0\<rparr>"

definition fresh :: LLLMImpl where
  "fresh = (LLLMImpl_new 0 7)\<lparr>mLMConnected := True\<rparr>"

definition thumb_moving :: "Vector \<Rightarrow> Finger" where
  "thumb_moving v =
     \<lparr>direction = Vector (- 1) 0 0, tipPosition = Vector 0 0 0, tipVelocity = v\<rparr>"

text \<open>A poll with mode \<open>m\<close>, flying answer \<open>f\<close> and hands \<open>hs\<close>.\<close>

definition poll :: "S32 \<Rightarrow> bool \<Rightarrow> HandList \<Rightarrow> call" where
  "poll m f hs = StepFrame \<lparr>getFlying = f, LeapmotionTestMode = m, frame_hands = hs\<rparr>"

text \<open>
  A run in mode 2: the thumb goes into the screen, comes back, and goes in again, a second
  apart, each frame announced and then polled.
\<close>

definition gun_run :: "(seconds \<times> call) list" where
  "gun_run =
     [(1, OnFrame 1),
      (1, poll 2 False [hand_with [still_finger, thumb_moving (Vector 60 0 (- 60))]]),
      (2, OnFrame 2),
      (2, poll 2 False [hand_with [still_finger, thumb_moving (Vector (- 60) 0 60)]]),
      (3, OnFrame 3),
      (3, poll 2 False [hand_with [still_finger, thumb_moving (Vector 60 0 (- 60))]])]"

text \<open>A yaw turn made by \<open>modeFlyingControlTest\<close> (mode 3 turns the avatar as well).\<close>

definition flying_yaw_turn :: "event list \<Rightarrow> bool" where
  "flying_yaw_turn evs = (list_ex (\<lambda>e. e = Invoked ModeFlyingControlTest) evs \<and> yaw_turn evs)"

text \<open>
  A run in mode 0 with the palm tilted while the agent flies, and a run in mode 2 with an
  open hand; polls a second, respectively three seconds, apart.
\<close>

definition tilted_hand :: Hand where
  "tilted_hand = (hand_with [still_finger])\<lparr>palmNormal := Vector 1 0 0\<rparr>"

definition yaw_run :: "(seconds \<times> call) list" where
  "yaw_run =
     [(1, OnFrame 1), (1, poll 0 True [tilted_hand]),
      (2, OnFrame 2), (2, poll 0 True [tilted_hand])]"

definition wave_run :: "(seconds \<times> call) list" where
  "wave_run =
     [(1, OnFrame 1), (1, poll 2 False [hand_with (replicate 5 still_finger)]),
      (3, OnFrame 2), (3, poll 2 False [hand_with (replicate 5 still_finger)]),
      (6, OnFrame 3), (6, poll 2 False [hand_with (replicate 5 still_finger)])]"

text \<open>
  Evaluations of \<open>modeFlyingControlTest\<close> while the agent flies: no hand twice, an
  open hand, no hand three times.
\<close>

definition open_hand :: Hand where
  "open_hand = hand_with (replicate 5 still_finger)"

definition hover_evals :: "(seconds \<times> bool \<times> HandList) list" where
  "hover_evals =
     [(1, True, []), (2, True, []), (3, True, [open_hand]),
      (4, True, []), (5, True, []), (6, True, [])]"

text \<open>
  The five evaluations that end with evaluation \<open>k\<close> of a sequence all satisfy the stop
  condition.
\<close>

definition five_consecutive_stops :: "(seconds \<times> bool \<times> HandList) list \<Rightarrow> nat \<Rightarrow> bool" where
  "five_consecutive_stops evals k =
     (4 \<le> k \<and>
      list_all (\<lambda>x. stop_condition (fst (snd x)) (snd (snd x))) (take 5 (drop (k - 4) evals)))"

section \<open>Properties\<close>

subsection \<open>Auxiliary facts\<close>

lemma Vector_div_eq:
  "Vector_div v n =
     (if n = 0 then (None, [Fault DivideByZero, Fault DivideByZero, Fault DivideByZero])
      else (Some (Vector (vec_x v / of_int n) (vec_y v / of_int n) (vec_z v / of_int n)), []))"
  by (simp add: Vector_div_def F32_div_def)

lemma list_ex_map_const: "list_ex P (map (\<lambda>x. c) xs) = (xs \<noteq> [] \<and> P c)"
  by (induction xs) auto

lemma checkExpirationAndReset_fst:
  "fst (checkExpirationAndReset i now t) = (mExpiration t \<le> now)"
  by (simp add: checkExpirationAndReset_def not_less)

lemma checkExpirationAndReset_snd:
  "snd (checkExpirationAndReset i now t) =
     (if mExpiration t \<le> now then t\<lparr>mExpiration := now + i\<rparr> else t)"
  by (simp add: checkExpirationAndReset_def not_less)

lemmas mode_defs =
  modeFlyingControlTest_def modeFlyingControlTest_onoff_def modeFlyingControlTest_forward_def
  modeFlyingControlTest_updown_def modeFlyingControlTest_yaw_def
  modeStreamDataToSL_def
  modeGestureDetection1_def modeGestureDetection1_one_finger_def
  modeGestureDetection1_two_fingers_def modeGestureDetection1_five_fingers_def
  modeMoveAndCamTest1_def modeMoveAndCamTest1_one_finger_def modeMoveAndCamTest1_two_fingers_def
  modeDumpDebugInfo_def

lemma Invoked_modeFlyingControlTest:
  "filter is_Invoked (snd (modeFlyingControlTest now f hands s)) = [Invoked ModeFlyingControlTest]"
  by (simp add: mode_defs Let_def case_prod_beta)

lemma Invoked_modeStreamDataToSL:
  "filter is_Invoked (snd (modeStreamDataToSL now hands s)) = [Invoked ModeStreamDataToSL]"
  by (simp add: mode_defs Let_def)

lemma Invoked_modeGestureDetection1:
  "filter is_Invoked (snd (modeGestureDetection1 now hands s)) = [Invoked ModeGestureDetection1]"
  by (simp add: mode_defs Let_def case_prod_beta)

lemma Invoked_modeMoveAndCamTest1:
  "filter is_Invoked (snd (modeMoveAndCamTest1 hands s)) = [Invoked ModeMoveAndCamTest1]"
  by (simp add: mode_defs Let_def case_prod_beta Vector_div_eq del: filter_True filter_False)

lemma Invoked_modeDumpDebugInfo:
  "filter is_Invoked (snd (modeDumpDebugInfo hands s)) = [Invoked ModeDumpDebugInfo]"
  by (simp add: mode_defs Let_def case_prod_beta Vector_div_eq)

lemma stepFrame_ready:
  assumes "mLMController s \<noteq> None" and "mFrameAvailable s" and "mLMConnected s"
  shows "stepFrame now e s =
           (if LeapmotionTestMode e = 0
            then modeFlyingControlTest now (getFlying e) (frame_hands e) (s\<lparr>mFrameAvailable := False\<rparr>)
            else if LeapmotionTestMode e = 1
            then modeStreamDataToSL now (frame_hands e) (s\<lparr>mFrameAvailable := False\<rparr>)
            else if LeapmotionTestMode e = 2
            then modeGestureDetection1 now (frame_hands e) (s\<lparr>mFrameAvailable := False\<rparr>)
            else if LeapmotionTestMode e = 3
            then modeMoveAndCamTest1 (frame_hands e) (s\<lparr>mFrameAvailable := False\<rparr>)
            else if LeapmotionTestMode e = 411
            then modeDumpDebugInfo (frame_hands e) (s\<lparr>mFrameAvailable := False\<rparr>)
            else (s\<lparr>mFrameAvailable := False\<rparr>, []))"
  using assms by (simp add: stepFrame_def Let_def)

lemma stepFrame_idle:
  "\<not> (mLMController s \<noteq> None \<and> mFrameAvailable s \<and> mLMConnected s) \<Longrightarrow> stepFrame now e s = (s, [])"
  by (auto simp add: stepFrame_def)

lemma keeps_modeFlyingControlTest:
  "mLMController (fst (modeFlyingControlTest now f hands s)) = mLMController s
   \<and> mLMConnected (fst (modeFlyingControlTest now f hands s)) = mLMConnected s
   \<and> mFrameAvailable (fst (modeFlyingControlTest now f hands s)) = mFrameAvailable s
   \<and> mCurrentFrameID (fst (modeFlyingControlTest now f hands s)) = mCurrentFrameID s"
  by (simp add: mode_defs Let_def case_prod_beta)

lemma keeps_modeStreamDataToSL:
  "mLMController (fst (modeStreamDataToSL now hands s)) = mLMController s
   \<and> mLMConnected (fst (modeStreamDataToSL now hands s)) = mLMConnected s
   \<and> mFrameAvailable (fst (modeStreamDataToSL now hands s)) = mFrameAvailable s
   \<and> mCurrentFrameID (fst (modeStreamDataToSL now hands s)) = mCurrentFrameID s"
  by (simp add: mode_defs Let_def case_prod_beta)

lemma keeps_modeGestureDetection1:
  "mLMController (fst (modeGestureDetection1 now hands s)) = mLMController s
   \<and> mLMConnected (fst (modeGestureDetection1 now hands s)) = mLMConnected s
   \<and> mFrameAvailable (fst (modeGestureDetection1 now hands s)) = mFrameAvailable s
   \<and> mCurrentFrameID (fst (modeGestureDetection1 now hands s)) = mCurrentFrameID s"
  by (simp add: mode_defs Let_def case_prod_beta)

lemma keeps_modeMoveAndCamTest1: "fst (modeMoveAndCamTest1 hands s) = s"
  by (simp add: modeMoveAndCamTest1_def Let_def case_prod_beta)

lemma keeps_modeDumpDebugInfo: "fst (modeDumpDebugInfo hands s) = s"
  by (simp add: modeDumpDebugInfo_def Let_def case_prod_beta)

lemma keeps_stepFrame:
  "mLMController (fst (stepFrame now e s)) = mLMController s
   \<and> mLMConnected (fst (stepFrame now e s)) = mLMConnected s
   \<and> mCurrentFrameID (fst (stepFrame now e s)) = mCurrentFrameID s"
  by (simp add: stepFrame_def Let_def keeps_modeFlyingControlTest keeps_modeStreamDataToSL
      keeps_modeGestureDetection1 keeps_modeMoveAndCamTest1 keeps_modeDumpDebugInfo)

lemma stepFrame_flag:
  "mFrameAvailable (fst (stepFrame now e s)) =
     (mFrameAvailable s \<and> \<not> (mLMController s \<noteq> None \<and> mLMConnected s))"
  by (auto simp add: stepFrame_def Let_def keeps_modeFlyingControlTest keeps_modeStreamDataToSL
      keeps_modeGestureDetection1 keeps_modeMoveAndCamTest1 keeps_modeDumpDebugInfo)

lemma polls_dispatched_bound:
  "polls_dispatched cs s
     \<le> length (filter (\<lambda>tc. is_OnFrame (snd tc)) cs) + (if mFrameAvailable s then 1 else 0)"
proof (induction cs arbitrary: s)
  case Nil
  show ?case by simp
next
  case (Cons tc cs)
  obtain now c where tc: "tc = (now, c)" by (cases tc)
  show ?case
  proof (cases c)
    case (StepFrame e)
    then show ?thesis
      using Cons.IH [of "fst (stepFrame now e s)"] tc
      by (auto simp: stepFrame_flag split: if_splits)
  next
    case (OnFrame fid)
    then show ?thesis
      using Cons.IH [of "fst (onFrame fid s)"] tc
      by (auto simp: onFrame_def split: if_splits)
  next
    case OnInit
    then show ?thesis using Cons.IH [of "fst (onInit s)"] tc by (simp add: onInit_def)
  next
    case OnConnect
    then show ?thesis using Cons.IH [of "fst (onConnect s)"] tc by (simp add: onConnect_def)
  next
    case OnDisconnect
    then show ?thesis using Cons.IH [of "fst (onDisconnect s)"] tc by (simp add: onDisconnect_def)
  qed
qed

subsection \<open>Dispatch\<close>

text \<open>
  C1.  Whenever \<open>stepFrame\<close> processes a frame (the controller pointer is not null, a
  frame is available and the device is connected), the mode functions it enters are: exactly
  the one that the setting \<open>LeapmotionTestMode\<close> selects (0, 1, 2, 3 and 411 select
  modeFlyingControlTest, modeStreamDataToSL, modeGestureDetection1, modeMoveAndCamTest1 and
  modeDumpDebugInfo), and none for any other value of the setting.  The result of the call is
  the result of that one function on the object with the frame flag cleared.
\<close>

theorem stepFrame_dispatch:
  assumes "mLMController s \<noteq> None" and "mFrameAvailable s" and "mLMConnected s"
  shows "filter is_Invoked (snd (stepFrame now e s)) =
           (if LeapmotionTestMode e = 0 then [Invoked ModeFlyingControlTest]
            else if LeapmotionTestMode e = 1 then [Invoked ModeStreamDataToSL]
            else if LeapmotionTestMode e = 2 then [Invoked ModeGestureDetection1]
            else if LeapmotionTestMode e = 3 then [Invoked ModeMoveAndCamTest1]
            else if LeapmotionTestMode e = 411 then [Invoked ModeDumpDebugInfo]
            else [])
         \<and> stepFrame now e s =
           (if LeapmotionTestMode e = 0
            then modeFlyingControlTest now (getFlying e) (frame_hands e) (s\<lparr>mFrameAvailable := False\<rparr>)
            else if LeapmotionTestMode e = 1
            then modeStreamDataToSL now (frame_hands e) (s\<lparr>mFrameAvailable := False\<rparr>)
            else if LeapmotionTestMode e = 2
            then modeGestureDetection1 now (frame_hands e) (s\<lparr>mFrameAvailable := False\<rparr>)
            else if LeapmotionTestMode e = 3
            then modeMoveAndCamTest1 (frame_hands e) (s\<lparr>mFrameAvailable := False\<rparr>)
            else if LeapmotionTestMode e = 411
            then modeDumpDebugInfo (frame_hands e) (s\<lparr>mFrameAvailable := False\<rparr>)
            else (s\<lparr>mFrameAvailable := False\<rparr>, []))"
  using assms
  by (simp add: stepFrame_ready Invoked_modeFlyingControlTest Invoked_modeStreamDataToSL
      Invoked_modeGestureDetection1 Invoked_modeMoveAndCamTest1 Invoked_modeDumpDebugInfo)

theorem stepFrame_dispatch_witness:
  "mLMController ((LLLMImpl_new 0 7)\<lparr>mLMConnected := True, mFrameAvailable := True\<rparr>) \<noteq> None
   \<and> mFrameAvailable ((LLLMImpl_new 0 7)\<lparr>mLMConnected := True, mFrameAvailable := True\<rparr>)
   \<and> mLMConnected ((LLLMImpl_new 0 7)\<lparr>mLMConnected := True, mFrameAvailable := True\<rparr>)
   \<and> filter is_Invoked
         (snd (stepFrame 1 \<lparr>getFlying = False, LeapmotionTestMode = 2, frame_hands = []\<rparr>
                 ((LLLMImpl_new 0 7)\<lparr>mLMConnected := True, mFrameAvailable := True\<rparr>)))
       = [Invoked ModeGestureDetection1]"
  using stepFrame_dispatch
          [of "(LLLMImpl_new 0 7)\<lparr>mLMConnected := True, mFrameAvailable := True\<rparr>"
              1 "\<lparr>getFlying = False, LeapmotionTestMode = 2, frame_hands = []\<rparr>",
           THEN conjunct1]
  by (simp add: LLLMImpl_new_def)

subsection \<open>Disconnecting\<close>

text \<open>
  C4.  A disconnect only flips a boolean: \<open>onDisconnect\<close> sets \<open>mLMConnected\<close> to
  false and leaves every other field as it was (the frame flag, the frame id, the three
  timers, the controller pointer), and it makes no call on the avatar, the camera, the chat
  or the gestures; it writes one log line.
\<close>

theorem onDisconnect_only_flips_connected:
  "fst (onDisconnect s) = s\<lparr>mLMConnected := False\<rparr>
   \<and> mLMConnected (fst (onDisconnect s)) = False
   \<and> mFrameAvailable (fst (onDisconnect s)) = mFrameAvailable s
   \<and> mCurrentFrameID (fst (onDisconnect s)) = mCurrentFrameID s
   \<and> mYawTimer (fst (onDisconnect s)) = mYawTimer s
   \<and> mChatMsgTimer (fst (onDisconnect s)) = mChatMsgTimer s
   \<and> mGestureTimer (fst (onDisconnect s)) = mGestureTimer s
   \<and> mLMController (fst (onDisconnect s)) = mLMController s
   \<and> filter is_host_action (snd (onDisconnect s)) = []
   \<and> snd (onDisconnect s) = [Log ''Disconnected'']"
  by (simp add: onDisconnect_def is_host_action_def)

subsection \<open>The frame flag\<close>

text \<open>
  C2.  The frame flag is a one-place buffer between \<open>onFrame\<close> and \<open>stepFrame\<close>,
  each taken as one indivisible step.
  \<^item> \<open>onFrame\<close> sets the flag and records the frame id exactly when the device is
    connected and the id differs from the recorded one; otherwise it changes nothing.  It
    makes no call on the host.
  \<^item> Without the flag \<open>stepFrame\<close> returns the object as it is, whatever the device
    holds: the sensor data are not read.
  \<^item> When \<open>stepFrame\<close> processes a frame, the mode function runs on the object with
    the flag already cleared, and the flag is clear afterwards.
  \<^item> A poll that follows a poll finds nothing to do: a notification is consumed at most
    once.
  \<^item> Of two notifications between polls only the later id is kept, under the one flag.
  \<^item> In every run the polls that process a frame are at most as many as the
    notifications, plus one if the flag was set at the start.
\<close>

theorem frame_flag_producer_consumer:
  "onFrame frame_id s =
     (if mLMConnected s \<and> frame_id \<noteq> mCurrentFrameID s
      then (s\<lparr>mCurrentFrameID := frame_id, mFrameAvailable := True\<rparr>, [])
      else (s, []))
   \<and> (\<not> mFrameAvailable s \<longrightarrow> stepFrame now e s = (s, []))
   \<and> (mLMController s \<noteq> None \<and> mFrameAvailable s \<and> mLMConnected s \<longrightarrow>
        \<not> mFrameAvailable (fst (stepFrame now e s))
        \<and> stepFrame now e s =
           (if LeapmotionTestMode e = 0
            then modeFlyingControlTest now (getFlying e) (frame_hands e) (s\<lparr>mFrameAvailable := False\<rparr>)
            else if LeapmotionTestMode e = 1
            then modeStreamDataToSL now (frame_hands e) (s\<lparr>mFrameAvailable := False\<rparr>)
            else if LeapmotionTestMode e = 2
            then modeGestureDetection1 now (frame_hands e) (s\<lparr>mFrameAvailable := False\<rparr>)
            else if LeapmotionTestMode e = 3
            then modeMoveAndCamTest1 (frame_hands e) (s\<lparr>mFrameAvailable := False\<rparr>)
            else if LeapmotionTestMode e = 411
            then modeDumpDebugInfo (frame_hands e) (s\<lparr>mFrameAvailable := False\<rparr>)
            else (s\<lparr>mFrameAvailable := False\<rparr>, [])))
   \<and> stepFrame now' e' (fst (stepFrame now e s)) = (fst (stepFrame now e s), [])
   \<and> (mLMConnected s \<and> a \<noteq> mCurrentFrameID s \<longrightarrow>
        fst (onFrame b (fst (onFrame a s))) = s\<lparr>mCurrentFrameID := b, mFrameAvailable := True\<rparr>)
   \<and> polls_dispatched cs s
        \<le> length (filter (\<lambda>tc. is_OnFrame (snd tc)) cs) + (if mFrameAvailable s then 1 else 0)"
proof -
  have 1: "onFrame frame_id s =
     (if mLMConnected s \<and> frame_id \<noteq> mCurrentFrameID s
      then (s\<lparr>mCurrentFrameID := frame_id, mFrameAvailable := True\<rparr>, [])
      else (s, []))"
    by (simp add: onFrame_def)
  have 2: "\<not> mFrameAvailable s \<longrightarrow> stepFrame now e s = (s, [])"
    by (simp add: stepFrame_idle)
  have 3: "mLMController s \<noteq> None \<and> mFrameAvailable s \<and> mLMConnected s \<longrightarrow>
        \<not> mFrameAvailable (fst (stepFrame now e s))"
    by (simp add: stepFrame_flag)
  have 4: "stepFrame now' e' (fst (stepFrame now e s)) = (fst (stepFrame now e s), [])"
    by (rule stepFrame_idle) (auto simp: stepFrame_flag keeps_stepFrame)
  have 5: "mLMConnected s \<and> a \<noteq> mCurrentFrameID s \<longrightarrow>
        fst (onFrame b (fst (onFrame a s))) = s\<lparr>mCurrentFrameID := b, mFrameAvailable := True\<rparr>"
    by (simp add: onFrame_def)
  show ?thesis
    using 1 2 3 4 5 polls_dispatched_bound [of cs s] stepFrame_ready [of s now e]
    by blast
qed

theorem frame_flag_producer_consumer_witness:
  "fst (onFrame 2 (fst (onFrame 1 ((LLLMImpl_new 0 7)\<lparr>mLMConnected := True\<rparr>))))
     = (LLLMImpl_new 0 7)\<lparr>mLMConnected := True, mCurrentFrameID := 2, mFrameAvailable := True\<rparr>
   \<and> stepFrame 1 \<lparr>getFlying = False, LeapmotionTestMode = 2, frame_hands = []\<rparr>
        ((LLLMImpl_new 0 7)\<lparr>mLMConnected := True\<rparr>)
     = ((LLLMImpl_new 0 7)\<lparr>mLMConnected := True\<rparr>, [])
   \<and> \<not> mFrameAvailable
        (fst (stepFrame 1 \<lparr>getFlying = False, LeapmotionTestMode = 2, frame_hands = []\<rparr>
           ((LLLMImpl_new 0 7)\<lparr>mLMConnected := True, mCurrentFrameID := 2, mFrameAvailable := True\<rparr>)))
   \<and> polls_dispatched
        [(0, OnFrame 1), (0, OnFrame 2),
         (1, StepFrame \<lparr>getFlying = False, LeapmotionTestMode = 2, frame_hands = []\<rparr>),
         (2, StepFrame \<lparr>getFlying = False, LeapmotionTestMode = 2, frame_hands = []\<rparr>)]
        ((LLLMImpl_new 0 7)\<lparr>mLMConnected := True\<rparr>) \<le> 2"
proof -
  let ?s0 = "(LLLMImpl_new 0 7)\<lparr>mLMConnected := True\<rparr>"
  let ?s2 = "(LLLMImpl_new 0 7)\<lparr>mLMConnected := True, mCurrentFrameID := 2, mFrameAvailable := True\<rparr>"
  let ?e = "\<lparr>getFlying = False, LeapmotionTestMode = 2, frame_hands = []\<rparr>"
  let ?cs = "[(0, OnFrame 1), (0, OnFrame 2), (1, StepFrame ?e), (2, StepFrame ?e)]"
  note at_s0 = frame_flag_producer_consumer [where s = ?s0 and a = 1 and b = 2 and now = 1
      and e = ?e and cs = ?cs]
  note at_s2 = frame_flag_producer_consumer [where s = ?s2 and now = 1 and e = ?e]
  have "fst (onFrame 2 (fst (onFrame 1 ?s0))) = ?s2"
    using at_s0 [THEN conjunct2, THEN conjunct2, THEN conjunct2, THEN conjunct2, THEN conjunct1]
    by (simp add: LLLMImpl_new_def)
  moreover have "stepFrame 1 ?e ?s0 = (?s0, [])"
    using at_s0 [THEN conjunct2, THEN conjunct1] by (simp add: LLLMImpl_new_def)
  moreover have "\<not> mFrameAvailable (fst (stepFrame 1 ?e ?s2))"
    using at_s2 [THEN conjunct2, THEN conjunct2, THEN conjunct1]
    by (simp add: LLLMImpl_new_def keeps_modeGestureDetection1)
  moreover have "polls_dispatched ?cs ?s0 \<le> 2"
    using at_s0 [THEN conjunct2, THEN conjunct2, THEN conjunct2, THEN conjunct2, THEN conjunct2]
    by (simp add: LLLMImpl_new_def)
  ultimately show ?thesis by blast
qed

subsection \<open>The chat channel\<close>

text \<open>
  C5.  The outbound chat channel is inert.  For every hand list \<open>modeStreamDataToSL\<close>
  sends no chat and makes no other call on the host; all it does to the object is to restart
  the chat timer, when there is exactly one hand and the timer has expired (then it also
  builds the message, which is dropped).  \<open>modeGestureDetection1\<close> sends no chat
  either.
\<close>

theorem chat_channel_inert:
  "filter is_SendChat (snd (modeStreamDataToSL now hands s)) = []
   \<and> filter is_host_action (snd (modeStreamDataToSL now hands s)) = []
   \<and> fst (modeStreamDataToSL now hands s) =
       (if length hands = 1 \<and> hasExpired now (mChatMsgTimer s)
        then s\<lparr>mChatMsgTimer := (mChatMsgTimer s)\<lparr>mExpiration := now + LLLEAP_CHAT_MSG_INTERVAL\<rparr>\<rparr>
        else s)
   \<and> filter is_SendChat (snd (modeGestureDetection1 now hands s)) = []"
proof -
  have 1: "filter is_SendChat (snd (modeStreamDataToSL now hands s)) = []"
    by (simp add: modeStreamDataToSL_def Let_def)
  have 2: "filter is_host_action (snd (modeStreamDataToSL now hands s)) = []"
    by (simp add: modeStreamDataToSL_def Let_def is_host_action_def)
  have 3: "fst (modeStreamDataToSL now hands s) =
       (if length hands = 1 \<and> hasExpired now (mChatMsgTimer s)
        then s\<lparr>mChatMsgTimer := (mChatMsgTimer s)\<lparr>mExpiration := now + LLLEAP_CHAT_MSG_INTERVAL\<rparr>\<rparr>
        else s)"
    by (simp add: modeStreamDataToSL_def Let_def hasExpired_def checkExpirationAndReset_def)
  have 4: "filter is_SendChat (snd (modeGestureDetection1 now hands s)) = []"
    by (simp add: mode_defs Let_def case_prod_beta)
  show ?thesis using 1 2 3 4 by blast
qed

lemma last_num_fingers_other_modes:
  "last_num_fingers (fst (modeFlyingControlTest now f hands s)) = last_num_fingers s"
  "last_num_fingers (fst (modeStreamDataToSL now hands s)) = last_num_fingers s"
  "last_num_fingers (fst (modeMoveAndCamTest1 hands s)) = last_num_fingers s"
  "last_num_fingers (fst (modeDumpDebugInfo hands s)) = last_num_fingers s"
  by (simp_all add: mode_defs Let_def case_prod_beta)

lemma last_num_fingers_modeGestureDetection1:
  "last_num_fingers (fst (modeGestureDetection1 now hands s)) =
     (if length hands = 1 then int (length (fingers (hands ! 0))) else last_num_fingers s)"
  by (simp add: modeGestureDetection1_def Let_def case_prod_beta)

lemma gesture_triggered_iff:
  "gesture_triggered (snd (modeGestureDetection1 now hands s)) =
     (length hands = 1 \<and> length (fingers (hands ! 0)) = 5 \<and> last_num_fingers s = 5
      \<and> hasExpired now (mGestureTimer s))"
  by (auto simp add: gesture_triggered_def mode_defs Let_def case_prod_beta hasExpired_def
      checkExpirationAndReset_def)

lemma gesture_text:
  "gesture_triggered (snd (modeGestureDetection1 now hands s)) \<Longrightarrow>
     filter is_TriggerGesture (snd (modeGestureDetection1 now hands s)) = [TriggerGesture ''/overhere'']"
  by (auto simp add: gesture_triggered_def mode_defs Let_def case_prod_beta hasExpired_def
      checkExpirationAndReset_def split: if_splits)

lemma last_num_fingers_exec:
  "last_num_fingers (fst (exec now c s)) =
     (case c of
        StepFrame e \<Rightarrow>
          if mLMController s \<noteq> None \<and> mFrameAvailable s \<and> mLMConnected s
             \<and> LeapmotionTestMode e = 2 \<and> length (frame_hands e) = 1
          then int (length (fingers (frame_hands e ! 0)))
          else last_num_fingers s
      | _ \<Rightarrow> last_num_fingers s)"
  by (cases c)
     (auto simp add: onInit_def onConnect_def onDisconnect_def onFrame_def stepFrame_def Let_def
        last_num_fingers_other_modes last_num_fingers_modeGestureDetection1)

subsection \<open>The gesture\<close>

text \<open>
  C7.  \<open>modeGestureDetection1\<close> triggers a gesture exactly when there is one hand, it
  shows five fingers, \<open>last_num_fingers\<close> is five as well, and the gesture timer has
  expired; the gesture is \<open>/overhere\<close>.  \<open>last_num_fingers\<close> is the finger count
  of the previous one-hand evaluation: a one-hand evaluation of \<open>modeGestureDetection1\<close>
  stores its finger count there, and no other call on the listener changes it.  So the count
  has to be five in two one-hand evaluations in a row.
\<close>

theorem gesture_needs_five_fingers_twice:
  "gesture_triggered (snd (modeGestureDetection1 now hands s)) =
     (length hands = 1 \<and> length (fingers (hands ! 0)) = 5 \<and> last_num_fingers s = 5
      \<and> hasExpired now (mGestureTimer s))
   \<and> (gesture_triggered (snd (modeGestureDetection1 now hands s)) \<longrightarrow>
        filter is_TriggerGesture (snd (modeGestureDetection1 now hands s))
          = [TriggerGesture ''/overhere''])
   \<and> last_num_fingers (fst (modeGestureDetection1 now hands s)) =
       (if length hands = 1 then int (length (fingers (hands ! 0))) else last_num_fingers s)
   \<and> last_num_fingers (fst (exec now c s)) =
       (case c of
          StepFrame e \<Rightarrow>
            if mLMController s \<noteq> None \<and> mFrameAvailable s \<and> mLMConnected s
               \<and> LeapmotionTestMode e = 2 \<and> length (frame_hands e) = 1
            then int (length (fingers (frame_hands e ! 0)))
            else last_num_fingers s
        | _ \<Rightarrow> last_num_fingers s)"
  using gesture_triggered_iff [of now hands s] gesture_text [of now hands s]
    last_num_fingers_modeGestureDetection1 [of now hands s] last_num_fingers_exec [of now c s]
  by blast

theorem gesture_needs_five_fingers_twice_witness:
  "gesture_triggered
     (snd (modeGestureDetection1 3 [hand_with (replicate 5 still_finger)]
             (fresh\<lparr>last_num_fingers := 5\<rparr>)))
   \<and> filter is_TriggerGesture
       (snd (modeGestureDetection1 3 [hand_with (replicate 5 still_finger)]
               (fresh\<lparr>last_num_fingers := 5\<rparr>)))
     = [TriggerGesture ''/overhere'']
   \<and> \<not> gesture_triggered
       (snd (modeGestureDetection1 3 [hand_with (replicate 5 still_finger)] fresh))"
proof -
  note a = gesture_needs_five_fingers_twice
      [where now = 3 and hands = "[hand_with (replicate 5 still_finger)]"
         and s = "fresh\<lparr>last_num_fingers := 5\<rparr>"]
  note b = gesture_needs_five_fingers_twice
      [where now = 3 and hands = "[hand_with (replicate 5 still_finger)]" and s = fresh]
  have 1: "gesture_triggered
     (snd (modeGestureDetection1 3 [hand_with (replicate 5 still_finger)]
             (fresh\<lparr>last_num_fingers := 5\<rparr>)))"
    unfolding a [THEN conjunct1]
    by (simp add: hand_with_def fresh_def LLLMImpl_new_def hasExpired_def setTimerExpirySec_def
        LLLEAP_GESTURE_INTERVAL_def)
  have 2: "\<not> gesture_triggered
       (snd (modeGestureDetection1 3 [hand_with (replicate 5 still_finger)] fresh))"
    unfolding b [THEN conjunct1]
    by (simp add: fresh_def LLLMImpl_new_def)
  show ?thesis using 1 2 a [THEN conjunct2, THEN conjunct1] by blast
qed

subsection \<open>The gun trigger\<close>

lemma trigger_direction_other_modes:
  "trigger_direction (fst (modeFlyingControlTest now f hands s)) = trigger_direction s"
  "trigger_direction (fst (modeStreamDataToSL now hands s)) = trigger_direction s"
  "trigger_direction (fst (modeMoveAndCamTest1 hands s)) = trigger_direction s"
  "trigger_direction (fst (modeDumpDebugInfo hands s)) = trigger_direction s"
  by (simp_all add: mode_defs Let_def case_prod_beta)

lemma no_gunfire_other_modes:
  "\<not> gunfire_attempt (snd (modeFlyingControlTest now f hands s))"
  "\<not> gunfire_attempt (snd (modeStreamDataToSL now hands s))"
  "\<not> gunfire_attempt (snd (modeMoveAndCamTest1 hands s))"
  "\<not> gunfire_attempt (snd (modeDumpDebugInfo hands s))"
  by (auto simp add: gunfire_attempt_def mode_defs Let_def case_prod_beta Vector_div_eq list_ex_map_const)

lemma gunfire_step:
  "gunfire_attempt (snd (modeGestureDetection1 now hands s)) \<Longrightarrow>
     trigger_direction s < 0 \<and> trigger_direction (fst (modeGestureDetection1 now hands s)) = 1
     \<and> hasExpired now (mChatMsgTimer s)"
  by (auto simp add: gunfire_attempt_def mode_defs Let_def case_prod_beta hasExpired_def
      checkExpirationAndReset_def split: if_splits)

lemma reset_step:
  "trigger_direction (fst (modeGestureDetection1 now hands s)) = - 1 \<Longrightarrow>
   trigger_direction s \<noteq> - 1 \<Longrightarrow>
     reset_input hands \<and> trigger_reset (snd (modeGestureDetection1 now hands s))"
  by (auto simp add: trigger_reset_def reset_input_def points_into_screen_def mode_defs Let_def
      case_prod_beta checkExpirationAndReset_def split: if_splits)

lemma trigger_direction_values:
  "trigger_direction s \<in> {- 1, 1} \<Longrightarrow>
     trigger_direction (fst (modeGestureDetection1 now hands s)) \<in> {- 1, 1}"
  by (auto simp add: mode_defs Let_def case_prod_beta checkExpirationAndReset_def split: if_splits)

lemma stays_fired:
  "0 \<le> trigger_direction s \<Longrightarrow> \<not> trigger_reset (snd (modeGestureDetection1 now hands s)) \<Longrightarrow>
     0 \<le> trigger_direction (fst (modeGestureDetection1 now hands s))"
  by (auto simp add: trigger_reset_def mode_defs Let_def case_prod_beta
      checkExpirationAndReset_def split: if_splits)

lemma gunfire_exec:
  "gunfire_attempt (snd (exec now c s)) \<Longrightarrow>
     trigger_direction s < 0 \<and> trigger_direction (fst (exec now c s)) = 1"
  by (cases c)
     (auto simp add: onInit_def onConnect_def onDisconnect_def onFrame_def stepFrame_def Let_def
        gunfire_attempt_def [of "[]"] gunfire_attempt_def [of "[_]"]
        no_gunfire_other_modes dest: gunfire_step split: if_splits)

lemma stays_fired_exec:
  "0 \<le> trigger_direction s \<Longrightarrow> \<not> trigger_reset (snd (exec now c s)) \<Longrightarrow>
     0 \<le> trigger_direction (fst (exec now c s))"
  by (cases c)
     (auto simp add: onInit_def onConnect_def onDisconnect_def onFrame_def stepFrame_def Let_def
        trigger_direction_other_modes intro!: stays_fired split: if_splits)

lemma reset_before_next_gunfire:
  "0 \<le> trigger_direction s \<Longrightarrow> j < length cs \<Longrightarrow> gunfire_attempt (snd (run cs s ! j)) \<Longrightarrow>
     \<exists>k<j. trigger_reset (snd (run cs s ! k))"
proof (induction cs arbitrary: s j)
  case Nil
  then show ?case by simp
next
  case (Cons tc cs)
  obtain now c where tc: "tc = (now, c)" by (cases tc)
  show ?case
  proof (cases j)
    case 0
    with Cons.prems tc have "gunfire_attempt (snd (exec now c s))" by simp
    from gunfire_exec [OF this] Cons.prems(1) show ?thesis by simp
  next
    case (Suc j')
    show ?thesis
    proof (cases "trigger_reset (snd (exec now c s))")
      case True
      then have "trigger_reset (snd (run (tc # cs) s ! 0))" using tc by simp
      then show ?thesis using Suc by blast
    next
      case False
      from stays_fired_exec [OF Cons.prems(1) False]
      have fired: "0 \<le> trigger_direction (fst (exec now c s))" .
      from Cons.prems Suc tc
      have "j' < length cs" and "gunfire_attempt (snd (run cs (fst (exec now c s)) ! j'))"
        by simp_all
      from Cons.IH [OF fired this]
      obtain k where "k < j'" and "trigger_reset (snd (run cs (fst (exec now c s)) ! k))"
        by blast
      then have "Suc k < j" and "trigger_reset (snd (run (tc # cs) s ! Suc k))"
        using Suc tc by simp_all
      then show ?thesis by blast
    qed
  qed
qed

lemma reset_between_gunfires:
  "i < j \<Longrightarrow> j < length cs \<Longrightarrow> gunfire_attempt (snd (run cs s ! i)) \<Longrightarrow>
   gunfire_attempt (snd (run cs s ! j)) \<Longrightarrow>
     \<exists>k. i < k \<and> k < j \<and> trigger_reset (snd (run cs s ! k))"
proof (induction cs arbitrary: s i j)
  case Nil
  then show ?case by simp
next
  case (Cons tc cs)
  obtain now c where tc: "tc = (now, c)" by (cases tc)
  from Cons.prems obtain j' where j: "j = Suc j'" by (cases j) auto
  show ?case
  proof (cases i)
    case 0
    with Cons.prems tc have "gunfire_attempt (snd (exec now c s))" by simp
    from gunfire_exec [OF this] have fired: "0 \<le> trigger_direction (fst (exec now c s))" by simp
    from Cons.prems j tc
    have "j' < length cs" and "gunfire_attempt (snd (run cs (fst (exec now c s)) ! j'))"
      by simp_all
    from reset_before_next_gunfire [OF fired this]
    obtain k where "k < j'" and "trigger_reset (snd (run cs (fst (exec now c s)) ! k))"
      by blast
    then have "i < Suc k" and "Suc k < j" and "trigger_reset (snd (run (tc # cs) s ! Suc k))"
      using 0 j tc by simp_all
    then show ?thesis by blast
  next
    case (Suc i')
    from Cons.prems Suc j tc
    have "i' < j'" and "j' < length cs"
      and "gunfire_attempt (snd (run cs (fst (exec now c s)) ! i'))"
      and "gunfire_attempt (snd (run cs (fst (exec now c s)) ! j'))"
      by simp_all
    from Cons.IH [OF this]
    obtain k where "i' < k" and "k < j'" and "trigger_reset (snd (run cs (fst (exec now c s)) ! k))"
      by blast
    then have "i < Suc k" and "Suc k < j" and "trigger_reset (snd (run (tc # cs) s ! Suc k))"
      using Suc j tc by simp_all
    then show ?thesis by blast
  qed
qed

lemma no_reset_other_modes:
  "\<not> trigger_reset (snd (modeFlyingControlTest now f hands s))"
  "\<not> trigger_reset (snd (modeStreamDataToSL now hands s))"
  "\<not> trigger_reset (snd (modeMoveAndCamTest1 hands s))"
  "\<not> trigger_reset (snd (modeDumpDebugInfo hands s))"
  by (auto simp add: trigger_reset_def mode_defs Let_def case_prod_beta Vector_div_eq list_ex_map_const)

lemma reset_logged_step:
  "trigger_reset (snd (modeGestureDetection1 now hands s)) \<Longrightarrow>
     reset_input hands \<and> trigger_direction s \<noteq> - 1
     \<and> trigger_direction (fst (modeGestureDetection1 now hands s)) = - 1"
  by (auto simp add: trigger_reset_def reset_input_def points_into_screen_def mode_defs Let_def
      case_prod_beta checkExpirationAndReset_def split: if_splits)

lemma reset_exec:
  "trigger_reset (snd (exec now c s)) \<Longrightarrow>
     (case c of StepFrame e \<Rightarrow> LeapmotionTestMode e = 2 \<and> reset_input (frame_hands e)
      | _ \<Rightarrow> False)"
  by (cases c)
     (auto simp add: onInit_def onConnect_def onDisconnect_def onFrame_def stepFrame_def Let_def
        trigger_reset_def [of "[]"] trigger_reset_def [of "[_]"]
        no_reset_other_modes dest: reset_logged_step split: if_splits)

lemma run_nth:
  "k < length cs \<Longrightarrow> \<exists>s'. run cs s ! k = (fst (cs ! k), snd (exec (fst (cs ! k)) (snd (cs ! k)) s'))"
proof (induction cs arbitrary: s k)
  case Nil
  then show ?case by simp
next
  case (Cons tc cs)
  obtain now c where tc: "tc = (now, c)" by (cases tc)
  show ?case
  proof (cases k)
    case 0
    then show ?thesis using tc by auto
  next
    case (Suc k')
    then show ?thesis using Cons.IH [of k' "fst (exec now c s)"] Cons.prems tc by auto
  qed
qed

lemma length_run: "length (run cs s) = length cs"
  by (induction cs arbitrary: s) auto

text \<open>
  C9.  Gunfire attempts alternate with resets.  \<open>trigger_direction\<close> starts at -1.
  \<open>modeGestureDetection1\<close> attempts a gunfire chat only when \<open>trigger_direction\<close>
  is negative, and sets it to 1.  It takes \<open>trigger_direction\<close> back to -1 only on a
  reset: one finger, two fingers with the barrel not pointing into the screen, or two fingers
  with the thumb pulled back (velocity x below -50, z above 50); each reset writes its log
  line.  Hence in every run of calls on the listener, between two polls that attempt gunfire
  there is a poll in mode 2 that resets.
\<close>

theorem gunfire_alternates_with_reset:
  "trigger_direction (LLLMImpl_new t0 c0) = - 1
   \<and> (gunfire_attempt (snd (modeGestureDetection1 now hands s)) \<longrightarrow>
        trigger_direction s < 0
        \<and> trigger_direction (fst (modeGestureDetection1 now hands s)) = 1)
   \<and> (trigger_direction s \<noteq> - 1
        \<and> trigger_direction (fst (modeGestureDetection1 now hands s)) = - 1 \<longrightarrow>
        reset_input hands \<and> trigger_reset (snd (modeGestureDetection1 now hands s)))
   \<and> (i < j \<and> j < length cs
        \<and> gunfire_attempt (snd (run cs s ! i)) \<and> gunfire_attempt (snd (run cs s ! j)) \<longrightarrow>
        (\<exists>k. i < k \<and> k < j \<and> trigger_reset (snd (run cs s ! k))
             \<and> (case snd (cs ! k) of
                   StepFrame e \<Rightarrow> LeapmotionTestMode e = 2 \<and> reset_input (frame_hands e)
                 | _ \<Rightarrow> False)))"
proof -
  have 1: "trigger_direction (LLLMImpl_new t0 c0) = - 1"
    by (simp add: LLLMImpl_new_def)
  have 4: "\<exists>k. i < k \<and> k < j \<and> trigger_reset (snd (run cs s ! k))
             \<and> (case snd (cs ! k) of
                   StepFrame e \<Rightarrow> LeapmotionTestMode e = 2 \<and> reset_input (frame_hands e)
                 | _ \<Rightarrow> False)"
    if a: "i < j" "j < length cs" "gunfire_attempt (snd (run cs s ! i))"
      "gunfire_attempt (snd (run cs s ! j))"
  proof -
    from reset_between_gunfires [OF a]
    obtain k where k: "i < k" "k < j" "trigger_reset (snd (run cs s ! k))" by blast
    with a have "k < length cs" by simp
    from run_nth [OF this, of s]
    obtain s' where "run cs s ! k = (fst (cs ! k), snd (exec (fst (cs ! k)) (snd (cs ! k)) s'))"
      by blast
    with k have "trigger_reset (snd (exec (fst (cs ! k)) (snd (cs ! k)) s'))" by simp
    from reset_exec [OF this] k show ?thesis by blast
  qed
  show ?thesis
    using 1 4 gunfire_step [of now hands s] reset_step [of now hands s] by blast
qed

theorem gunfire_alternates_with_reset_witness:
  "gunfire_attempt (snd (run gun_run fresh ! 1))
   \<and> gunfire_attempt (snd (run gun_run fresh ! 5))
   \<and> (\<exists>k. 1 < k \<and> k < 5 \<and> trigger_reset (snd (run gun_run fresh ! k)))"
proof -
  have r: "run gun_run fresh =
      [(1, []),
       (1, [Invoked ModeGestureDetection1, ChatFormatted ''/2343 LM2 gunfire'' [],
            Log ''Sent gunfire chat'']),
       (2, []),
       (2, [Invoked ModeGestureDetection1, Log ''Reset trigger_direction'']),
       (3, []),
       (3, [Invoked ModeGestureDetection1, ChatFormatted ''/2343 LM2 gunfire'' [],
            Log ''Sent gunfire chat''])]"
    by (simp add: gun_run_def fresh_def LLLMImpl_new_def onFrame_def poll_def stepFrame_def
        modeGestureDetection1_def modeGestureDetection1_two_fingers_def Let_def
        hand_with_def still_finger_def thumb_moving_def llabs_def checkExpirationAndReset_def
        setTimerExpirySec_def LLLEAP_CHAT_MSG_INTERVAL_def)
  have g1: "gunfire_attempt (snd (run gun_run fresh ! 1))"
    and g5: "gunfire_attempt (snd (run gun_run fresh ! 5))"
    by (simp_all add: r gunfire_attempt_def)
  have len: "5 < length gun_run"
    by (simp add: gun_run_def)
  from gunfire_alternates_with_reset [where i = 1 and j = 5 and cs = gun_run and s = fresh,
      THEN conjunct2, THEN conjunct2, THEN conjunct2] g1 g5 len
  have "\<exists>k. 1 < k \<and> k < 5 \<and> trigger_reset (snd (run gun_run fresh ! k))"
    by auto
  with g1 g5 show ?thesis by blast
qed

subsection \<open>The public wrapper\<close>

text \<open>
  C10.  \<open>LLLeapMotionController::stepFrame\<close> forwards to \<open>LLLMImpl::stepFrame\<close> only
  when \<open>mController\<close> is not null and the startup state is \<open>STATE_STARTED\<close>.  In
  every other startup state, and with a null \<open>mController\<close>, it leaves the object as it
  is and makes no call on the host, whatever the device holds.
\<close>

theorem wrapper_forwards_only_when_started:
  "(startup_state \<noteq> STATE_STARTED \<longrightarrow>
      LLLeapMotionController_stepFrame STATE_STARTED startup_state now e c = (c, []))
   \<and> (mController c = None \<longrightarrow>
      LLLeapMotionController_stepFrame STATE_STARTED startup_state now e c = (c, []))
   \<and> (mController c = Some impl \<and> startup_state = STATE_STARTED \<longrightarrow>
      LLLeapMotionController_stepFrame STATE_STARTED startup_state now e c
        = (c\<lparr>mController := Some (fst (stepFrame now e impl))\<rparr>, snd (stepFrame now e impl)))"
  by (auto simp add: LLLeapMotionController_stepFrame_def case_prod_beta split: option.splits)

theorem wrapper_forwards_only_when_started_witness:
  "LLLeapMotionController_stepFrame (22 :: nat) 3 1
       \<lparr>getFlying = False, LeapmotionTestMode = 3, frame_hands = [hand_with [still_finger]]\<rparr>
       \<lparr>mController = Some (fresh\<lparr>mFrameAvailable := True\<rparr>)\<rparr>
     = (\<lparr>mController = Some (fresh\<lparr>mFrameAvailable := True\<rparr>)\<rparr>, [])
   \<and> LLLeapMotionController_stepFrame (22 :: nat) 22 1
       \<lparr>getFlying = False, LeapmotionTestMode = 3, frame_hands = [hand_with [still_finger]]\<rparr>
       \<lparr>mController = None\<rparr>
     = (\<lparr>mController = None\<rparr>, [])
   \<and> snd (LLLeapMotionController_stepFrame (22 :: nat) 22 1
       \<lparr>getFlying = False, LeapmotionTestMode = 3, frame_hands = [hand_with [still_finger]]\<rparr>
       \<lparr>mController = Some (fresh\<lparr>mFrameAvailable := True\<rparr>)\<rparr>)
     = snd (stepFrame 1
       \<lparr>getFlying = False, LeapmotionTestMode = 3, frame_hands = [hand_with [still_finger]]\<rparr>
       (fresh\<lparr>mFrameAvailable := True\<rparr>))"
  using wrapper_forwards_only_when_started
      [where STATE_STARTED = "22 :: nat" and startup_state = 3 and now = 1
         and e = "\<lparr>getFlying = False, LeapmotionTestMode = 3, frame_hands = [hand_with [still_finger]]\<rparr>"
         and c = "\<lparr>mController = Some (fresh\<lparr>mFrameAvailable := True\<rparr>)\<rparr>"]
    wrapper_forwards_only_when_started
      [where STATE_STARTED = "22 :: nat" and startup_state = 22 and now = 1
         and e = "\<lparr>getFlying = False, LeapmotionTestMode = 3, frame_hands = [hand_with [still_finger]]\<rparr>"
         and c = "\<lparr>mController = None\<rparr>"]
    wrapper_forwards_only_when_started
      [where STATE_STARTED = "22 :: nat" and startup_state = 22 and now = 1
         and e = "\<lparr>getFlying = False, LeapmotionTestMode = 3, frame_hands = [hand_with [still_finger]]\<rparr>"
         and c = "\<lparr>mController = Some (fresh\<lparr>mFrameAvailable := True\<rparr>)\<rparr>"
         and impl = "fresh\<lparr>mFrameAvailable := True\<rparr>"]
  by simp

subsection \<open>The three timers\<close>

lemma rate_limit_first:
  assumes step: "\<And>now c s. kind (snd (exec now c s)) \<Longrightarrow>
             mExpiration (timer s) \<le> now \<and> mExpiration (timer (fst (exec now c s))) = now + I"
    and mono: "\<And>now c s. mExpiration (timer s) \<le> mExpiration (timer (fst (exec now c s)))"
  shows "j < length cs \<Longrightarrow> kind (snd (run cs s ! j)) \<Longrightarrow> mExpiration (timer s) \<le> fst (run cs s ! j)"
proof (induction cs arbitrary: s j)
  case Nil
  then show ?case by simp
next
  case (Cons tc cs)
  obtain now c where tc: "tc = (now, c)" by (cases tc)
  show ?case
  proof (cases j)
    case 0
    with Cons.prems tc have "kind (snd (exec now c s))" by simp
    from step [OF this] show ?thesis using 0 tc by simp
  next
    case (Suc j')
    with Cons.prems tc
    have "j' < length cs" and "kind (snd (run cs (fst (exec now c s)) ! j'))" by simp_all
    from Cons.IH [OF this]
    have "mExpiration (timer (fst (exec now c s))) \<le> fst (run cs (fst (exec now c s)) ! j')" .
    with mono [of s now c] show ?thesis using Suc tc by simp
  qed
qed

lemma rate_limit_run:
  assumes step: "\<And>now c s. kind (snd (exec now c s)) \<Longrightarrow>
             mExpiration (timer s) \<le> now \<and> mExpiration (timer (fst (exec now c s))) = now + I"
    and mono: "\<And>now c s. mExpiration (timer s) \<le> mExpiration (timer (fst (exec now c s)))"
  shows "i < j \<Longrightarrow> j < length cs \<Longrightarrow> kind (snd (run cs s ! i)) \<Longrightarrow> kind (snd (run cs s ! j)) \<Longrightarrow>
           fst (run cs s ! i) + I \<le> fst (run cs s ! j)"
proof (induction cs arbitrary: s i j)
  case Nil
  then show ?case by simp
next
  case (Cons tc cs)
  obtain now c where tc: "tc = (now, c)" by (cases tc)
  from Cons.prems obtain j' where j: "j = Suc j'" by (cases j) auto
  show ?case
  proof (cases i)
    case 0
    with Cons.prems tc have "kind (snd (exec now c s))" by simp
    from step [OF this] have e: "mExpiration (timer (fst (exec now c s))) = now + I" by simp
    from Cons.prems j tc
    have "j' < length cs" and "kind (snd (run cs (fst (exec now c s)) ! j'))" by simp_all
    from rate_limit_first [of kind timer I, OF step mono this]
    have "mExpiration (timer (fst (exec now c s))) \<le> fst (run cs (fst (exec now c s)) ! j')" .
    with e show ?thesis using 0 j tc by simp
  next
    case (Suc i')
    from Cons.prems Suc j tc
    have "i' < j'" and "j' < length cs"
      and "kind (snd (run cs (fst (exec now c s)) ! i'))"
      and "kind (snd (run cs (fst (exec now c s)) ! j'))"
      by simp_all
    from Cons.IH [OF this] show ?thesis using Suc j tc by simp
  qed
qed

lemma intervals_positive:
  "0 < LLLEAP_YAW_INTERVAL" "0 < LLLEAP_CHAT_MSG_INTERVAL" "0 < LLLEAP_GESTURE_INTERVAL"
  by (simp_all add: LLLEAP_YAW_INTERVAL_def LLLEAP_CHAT_MSG_INTERVAL_def LLLEAP_GESTURE_INTERVAL_def)

lemma checkExpirationAndReset_mono:
  "0 \<le> i \<Longrightarrow> mExpiration t \<le> mExpiration (snd (checkExpirationAndReset i now t))"
  by (simp add: checkExpirationAndReset_def)

lemma yaw_timer_modes:
  "mExpiration (mYawTimer s) \<le> mExpiration (mYawTimer (fst (modeFlyingControlTest now f hands s)))"
  "mYawTimer (fst (modeStreamDataToSL now hands s)) = mYawTimer s"
  "mYawTimer (fst (modeGestureDetection1 now hands s)) = mYawTimer s"
  "mYawTimer (fst (modeMoveAndCamTest1 hands s)) = mYawTimer s"
  "mYawTimer (fst (modeDumpDebugInfo hands s)) = mYawTimer s"
  using intervals_positive
  by (simp_all add: mode_defs Let_def case_prod_beta checkExpirationAndReset_def)

lemma yaw_step:
  "yaw_turn (snd (modeFlyingControlTest now f hands s)) \<Longrightarrow>
     hasExpired now (mYawTimer s)
     \<and> mExpiration (mYawTimer (fst (modeFlyingControlTest now f hands s))) = now + LLLEAP_YAW_INTERVAL"
  by (auto simp add: yaw_turn_def hasExpired_def mode_defs Let_def case_prod_beta
      checkExpirationAndReset_def split: if_splits)

lemma not_entered_Flying:
  "\<not> list_ex (\<lambda>e. e = Invoked ModeFlyingControlTest) (snd (modeStreamDataToSL now hands s))"
  "\<not> list_ex (\<lambda>e. e = Invoked ModeFlyingControlTest) (snd (modeGestureDetection1 now hands s))"
  "\<not> list_ex (\<lambda>e. e = Invoked ModeFlyingControlTest) (snd (modeMoveAndCamTest1 hands s))"
  "\<not> list_ex (\<lambda>e. e = Invoked ModeFlyingControlTest) (snd (modeDumpDebugInfo hands s))"
  by (auto simp add: mode_defs Let_def case_prod_beta Vector_div_eq list_ex_map_const)

lemma yaw_exec:
  "flying_yaw_turn (snd (exec now c s)) \<Longrightarrow>
     mExpiration (mYawTimer s) \<le> now
     \<and> mExpiration (mYawTimer (fst (exec now c s))) = now + LLLEAP_YAW_INTERVAL"
  by (cases c)
     (auto simp add: onInit_def onConnect_def onDisconnect_def onFrame_def stepFrame_def Let_def
        flying_yaw_turn_def not_entered_Flying hasExpired_def not_less
        yaw_turn_def [of "[]"] yaw_turn_def [of "[_]"] dest!: yaw_step split: if_splits)

lemma yaw_mono_exec:
  "mExpiration (mYawTimer s) \<le> mExpiration (mYawTimer (fst (exec now c s)))"
  using yaw_timer_modes(1) [of "s\<lparr>mFrameAvailable := False\<rparr>"]
  by (cases c)
     (auto simp add: onInit_def onConnect_def onDisconnect_def onFrame_def stepFrame_def Let_def
        yaw_timer_modes(2-))

lemma chat_timer_modes:
  "mChatMsgTimer (fst (modeFlyingControlTest now f hands s)) = mChatMsgTimer s"
  "mExpiration (mChatMsgTimer s) \<le> mExpiration (mChatMsgTimer (fst (modeStreamDataToSL now hands s)))"
  "mExpiration (mChatMsgTimer s) \<le> mExpiration (mChatMsgTimer (fst (modeGestureDetection1 now hands s)))"
  "mChatMsgTimer (fst (modeMoveAndCamTest1 hands s)) = mChatMsgTimer s"
  "mChatMsgTimer (fst (modeDumpDebugInfo hands s)) = mChatMsgTimer s"
  using intervals_positive
  by (simp_all add: mode_defs Let_def case_prod_beta checkExpirationAndReset_def)

lemma no_chat_attempt:
  "\<not> chat_attempt (snd (modeFlyingControlTest now f hands s))"
  "\<not> chat_attempt (snd (modeMoveAndCamTest1 hands s))"
  "\<not> chat_attempt (snd (modeDumpDebugInfo hands s))"
  by (auto simp add: chat_attempt_def mode_defs Let_def case_prod_beta Vector_div_eq list_ex_map_const
      checkExpirationAndReset_def)

lemma chat_step_Stream:
  "chat_attempt (snd (modeStreamDataToSL now hands s)) \<Longrightarrow>
     hasExpired now (mChatMsgTimer s)
     \<and> mExpiration (mChatMsgTimer (fst (modeStreamDataToSL now hands s))) = now + LLLEAP_CHAT_MSG_INTERVAL"
  by (auto simp add: chat_attempt_def hasExpired_def mode_defs Let_def case_prod_beta
      checkExpirationAndReset_def split: if_splits)

lemma chat_step_Gesture:
  "chat_attempt (snd (modeGestureDetection1 now hands s)) \<Longrightarrow>
     hasExpired now (mChatMsgTimer s)
     \<and> mExpiration (mChatMsgTimer (fst (modeGestureDetection1 now hands s))) = now + LLLEAP_CHAT_MSG_INTERVAL"
  by (auto simp add: chat_attempt_def hasExpired_def mode_defs Let_def case_prod_beta
      checkExpirationAndReset_def split: if_splits)

lemma chat_exec:
  "chat_attempt (snd (exec now c s)) \<Longrightarrow>
     mExpiration (mChatMsgTimer s) \<le> now
     \<and> mExpiration (mChatMsgTimer (fst (exec now c s))) = now + LLLEAP_CHAT_MSG_INTERVAL"
  by (cases c)
     (auto simp add: onInit_def onConnect_def onDisconnect_def onFrame_def stepFrame_def Let_def
        no_chat_attempt hasExpired_def not_less
        chat_attempt_def [of "[]"] chat_attempt_def [of "[_]"]
        dest!: chat_step_Stream chat_step_Gesture split: if_splits)

lemma chat_mono_exec:
  "mExpiration (mChatMsgTimer s) \<le> mExpiration (mChatMsgTimer (fst (exec now c s)))"
  using chat_timer_modes(2,3) [of "s\<lparr>mFrameAvailable := False\<rparr>"]
  by (cases c)
     (auto simp add: onInit_def onConnect_def onDisconnect_def onFrame_def stepFrame_def Let_def
        chat_timer_modes(1,4,5))

lemma gesture_timer_modes:
  "mGestureTimer (fst (modeFlyingControlTest now f hands s)) = mGestureTimer s"
  "mGestureTimer (fst (modeStreamDataToSL now hands s)) = mGestureTimer s"
  "mExpiration (mGestureTimer s) \<le> mExpiration (mGestureTimer (fst (modeGestureDetection1 now hands s)))"
  "mGestureTimer (fst (modeMoveAndCamTest1 hands s)) = mGestureTimer s"
  "mGestureTimer (fst (modeDumpDebugInfo hands s)) = mGestureTimer s"
  using intervals_positive
  by (simp_all add: mode_defs Let_def case_prod_beta checkExpirationAndReset_def)

lemma no_gesture_triggered:
  "\<not> gesture_triggered (snd (modeFlyingControlTest now f hands s))"
  "\<not> gesture_triggered (snd (modeStreamDataToSL now hands s))"
  "\<not> gesture_triggered (snd (modeMoveAndCamTest1 hands s))"
  "\<not> gesture_triggered (snd (modeDumpDebugInfo hands s))"
  by (auto simp add: gesture_triggered_def mode_defs Let_def case_prod_beta Vector_div_eq
      list_ex_map_const checkExpirationAndReset_def)

lemma gesture_step:
  "gesture_triggered (snd (modeGestureDetection1 now hands s)) \<Longrightarrow>
     hasExpired now (mGestureTimer s)
     \<and> mExpiration (mGestureTimer (fst (modeGestureDetection1 now hands s))) = now + LLLEAP_GESTURE_INTERVAL"
  by (auto simp add: gesture_triggered_def hasExpired_def mode_defs Let_def case_prod_beta
      checkExpirationAndReset_def split: if_splits)

lemma gesture_exec:
  "gesture_triggered (snd (exec now c s)) \<Longrightarrow>
     mExpiration (mGestureTimer s) \<le> now
     \<and> mExpiration (mGestureTimer (fst (exec now c s))) = now + LLLEAP_GESTURE_INTERVAL"
  by (cases c)
     (auto simp add: onInit_def onConnect_def onDisconnect_def onFrame_def stepFrame_def Let_def
        no_gesture_triggered hasExpired_def not_less
        gesture_triggered_def [of "[]"] gesture_triggered_def [of "[_]"]
        dest!: gesture_step split: if_splits)

lemma gesture_mono_exec:
  "mExpiration (mGestureTimer s) \<le> mExpiration (mGestureTimer (fst (exec now c s)))"
  using gesture_timer_modes(3) [of "s\<lparr>mFrameAvailable := False\<rparr>"]
  by (cases c)
     (auto simp add: onInit_def onConnect_def onDisconnect_def onFrame_def stepFrame_def Let_def
        gesture_timer_modes(1,2,4,5))

lemma run_yaw_run:
  "run yaw_run fresh =
     [(1, []),
      (1, [Invoked ModeFlyingControlTest, SetControlFlags [AGENT_CONTROL_AT_POS],
           ClearControlFlags [AGENT_CONTROL_FAST_UP, AGENT_CONTROL_UP_POS, AGENT_CONTROL_UP_NEG],
           MoveYaw 1]),
      (2, []),
      (2, [Invoked ModeFlyingControlTest, SetControlFlags [AGENT_CONTROL_AT_POS],
           ClearControlFlags [AGENT_CONTROL_FAST_UP, AGENT_CONTROL_UP_POS, AGENT_CONTROL_UP_NEG],
           MoveYaw 1])]"
  by (simp add: yaw_run_def fresh_def LLLMImpl_new_def onFrame_def poll_def stepFrame_def
        mode_defs Let_def hand_with_def still_finger_def thumb_moving_def tilted_hand_def llabs_def
        checkExpirationAndReset_def setTimerExpirySec_def LLLEAP_CHAT_MSG_INTERVAL_def
        LLLEAP_YAW_INTERVAL_def LLLEAP_GESTURE_INTERVAL_def)

lemma run_wave_run:
  "run wave_run fresh =
     [(1, []), (1, [Invoked ModeGestureDetection1]),
      (3, []), (3, [Invoked ModeGestureDetection1, TriggerGesture ''/overhere'']),
      (6, []), (6, [Invoked ModeGestureDetection1, TriggerGesture ''/overhere''])]"
  by (simp add: wave_run_def fresh_def LLLMImpl_new_def onFrame_def poll_def stepFrame_def
        mode_defs Let_def hand_with_def still_finger_def thumb_moving_def tilted_hand_def llabs_def
        checkExpirationAndReset_def setTimerExpirySec_def LLLEAP_CHAT_MSG_INTERVAL_def
        LLLEAP_YAW_INTERVAL_def LLLEAP_GESTURE_INTERVAL_def)

lemma run_gun_run:
  "run gun_run fresh =
      [(1, []),
       (1, [Invoked ModeGestureDetection1, ChatFormatted ''/2343 LM2 gunfire'' [],
            Log ''Sent gunfire chat'']),
       (2, []),
       (2, [Invoked ModeGestureDetection1, Log ''Reset trigger_direction'']),
       (3, []),
       (3, [Invoked ModeGestureDetection1, ChatFormatted ''/2343 LM2 gunfire'' [],
            Log ''Sent gunfire chat''])]"
  by (simp add: gun_run_def fresh_def LLLMImpl_new_def onFrame_def poll_def stepFrame_def
        mode_defs Let_def hand_with_def still_finger_def thumb_moving_def tilted_hand_def llabs_def
        checkExpirationAndReset_def setTimerExpirySec_def LLLEAP_CHAT_MSG_INTERVAL_def
        LLLEAP_YAW_INTERVAL_def LLLEAP_GESTURE_INTERVAL_def)

text \<open>
  C6.  Three interval timers rate-limit the outbound actions; the intervals are 0.075 s for
  the yaw timer, 0.2 s for the chat timer and 3 s for the gesture timer, and the constructor
  sets each timer to expire one interval after construction.  In every call on the listener,
  a yaw turn of \<open>modeFlyingControlTest\<close>, a chat attempt (of \<open>modeStreamDataToSL\<close>
  or of the gunfire branch of \<open>modeGestureDetection1\<close>) and a triggered gesture each
  happen only when their timer has expired, and the timer then expires next one interval
  after the time of the call.  Hence in every run two actions of the same kind are at least
  the interval of their timer apart.
\<close>

theorem timers_rate_limit:
  "LLLEAP_YAW_INTERVAL = 75 / 1000 \<and> LLLEAP_CHAT_MSG_INTERVAL = 200 / 1000
   \<and> LLLEAP_GESTURE_INTERVAL = 3
   \<and> mExpiration (mYawTimer (LLLMImpl_new t0 c0)) = t0 + LLLEAP_YAW_INTERVAL
   \<and> mExpiration (mChatMsgTimer (LLLMImpl_new t0 c0)) = t0 + LLLEAP_CHAT_MSG_INTERVAL
   \<and> mExpiration (mGestureTimer (LLLMImpl_new t0 c0)) = t0 + LLLEAP_GESTURE_INTERVAL
   \<and> (flying_yaw_turn (snd (exec now c s)) \<longrightarrow>
        hasExpired now (mYawTimer s)
        \<and> mExpiration (mYawTimer (fst (exec now c s))) = now + LLLEAP_YAW_INTERVAL)
   \<and> (chat_attempt (snd (exec now c s)) \<longrightarrow>
        hasExpired now (mChatMsgTimer s)
        \<and> mExpiration (mChatMsgTimer (fst (exec now c s))) = now + LLLEAP_CHAT_MSG_INTERVAL)
   \<and> (gesture_triggered (snd (exec now c s)) \<longrightarrow>
        hasExpired now (mGestureTimer s)
        \<and> mExpiration (mGestureTimer (fst (exec now c s))) = now + LLLEAP_GESTURE_INTERVAL)
   \<and> (i < j \<and> j < length cs
        \<and> flying_yaw_turn (snd (run cs s ! i)) \<and> flying_yaw_turn (snd (run cs s ! j)) \<longrightarrow>
        fst (cs ! i) + LLLEAP_YAW_INTERVAL \<le> fst (cs ! j))
   \<and> (i < j \<and> j < length cs
        \<and> chat_attempt (snd (run cs s ! i)) \<and> chat_attempt (snd (run cs s ! j)) \<longrightarrow>
        fst (cs ! i) + LLLEAP_CHAT_MSG_INTERVAL \<le> fst (cs ! j))
   \<and> (i < j \<and> j < length cs
        \<and> gesture_triggered (snd (run cs s ! i)) \<and> gesture_triggered (snd (run cs s ! j)) \<longrightarrow>
        fst (cs ! i) + LLLEAP_GESTURE_INTERVAL \<le> fst (cs ! j))"
proof -
  have ivals: "LLLEAP_YAW_INTERVAL = 75 / 1000 \<and> LLLEAP_CHAT_MSG_INTERVAL = 200 / 1000
      \<and> LLLEAP_GESTURE_INTERVAL = 3"
    by (simp add: LLLEAP_YAW_INTERVAL_def LLLEAP_CHAT_MSG_INTERVAL_def LLLEAP_GESTURE_INTERVAL_def)
  have armed: "mExpiration (mYawTimer (LLLMImpl_new t0 c0)) = t0 + LLLEAP_YAW_INTERVAL
      \<and> mExpiration (mChatMsgTimer (LLLMImpl_new t0 c0)) = t0 + LLLEAP_CHAT_MSG_INTERVAL
      \<and> mExpiration (mGestureTimer (LLLMImpl_new t0 c0)) = t0 + LLLEAP_GESTURE_INTERVAL"
    by (simp add: LLLMImpl_new_def setTimerExpirySec_def)
  have times: "fst (run cs s ! k) = fst (cs ! k)" if "k < length cs" for k
    using run_nth [OF that, of s] by auto
  have yaw: "fst (cs ! i) + LLLEAP_YAW_INTERVAL \<le> fst (cs ! j)"
    if "i < j" "j < length cs" "flying_yaw_turn (snd (run cs s ! i))"
      "flying_yaw_turn (snd (run cs s ! j))"
    using rate_limit_run [of flying_yaw_turn mYawTimer LLLEAP_YAW_INTERVAL, OF yaw_exec yaw_mono_exec that]
      times [of i] times [of j] that by simp
  have chat: "fst (cs ! i) + LLLEAP_CHAT_MSG_INTERVAL \<le> fst (cs ! j)"
    if "i < j" "j < length cs" "chat_attempt (snd (run cs s ! i))"
      "chat_attempt (snd (run cs s ! j))"
    using rate_limit_run [of chat_attempt mChatMsgTimer LLLEAP_CHAT_MSG_INTERVAL,
        OF chat_exec chat_mono_exec that]
      times [of i] times [of j] that by simp
  have gesture: "fst (cs ! i) + LLLEAP_GESTURE_INTERVAL \<le> fst (cs ! j)"
    if "i < j" "j < length cs" "gesture_triggered (snd (run cs s ! i))"
      "gesture_triggered (snd (run cs s ! j))"
    using rate_limit_run [of gesture_triggered mGestureTimer LLLEAP_GESTURE_INTERVAL,
        OF gesture_exec gesture_mono_exec that]
      times [of i] times [of j] that by simp
  show ?thesis
    using ivals armed yaw chat gesture
      yaw_exec [of now c s] chat_exec [of now c s] gesture_exec [of now c s]
    unfolding hasExpired_def not_less
    by blast
qed

theorem timers_rate_limit_witness:
  "flying_yaw_turn (snd (run yaw_run fresh ! 1)) \<and> flying_yaw_turn (snd (run yaw_run fresh ! 3))
   \<and> fst (yaw_run ! 1) + LLLEAP_YAW_INTERVAL \<le> fst (yaw_run ! 3)
   \<and> chat_attempt (snd (run gun_run fresh ! 1)) \<and> chat_attempt (snd (run gun_run fresh ! 5))
   \<and> fst (gun_run ! 1) + LLLEAP_CHAT_MSG_INTERVAL \<le> fst (gun_run ! 5)
   \<and> gesture_triggered (snd (run wave_run fresh ! 3))
   \<and> gesture_triggered (snd (run wave_run fresh ! 5))
   \<and> fst (wave_run ! 3) + LLLEAP_GESTURE_INTERVAL \<le> fst (wave_run ! 5)"
proof -
  have y: "flying_yaw_turn (snd (run yaw_run fresh ! 1))"
      "flying_yaw_turn (snd (run yaw_run fresh ! 3))"
    by (simp_all add: run_yaw_run flying_yaw_turn_def yaw_turn_def)
  have c: "chat_attempt (snd (run gun_run fresh ! 1))"
      "chat_attempt (snd (run gun_run fresh ! 5))"
    by (simp_all add: run_gun_run chat_attempt_def)
  have g: "gesture_triggered (snd (run wave_run fresh ! 3))"
      "gesture_triggered (snd (run wave_run fresh ! 5))"
    by (simp_all add: run_wave_run gesture_triggered_def)
  have len: "3 < length yaw_run" "5 < length gun_run" "5 < length wave_run"
    by (simp_all add: yaw_run_def gun_run_def wave_run_def)
  note at_yaw = timers_rate_limit [where i = 1 and j = 3 and cs = yaw_run and s = fresh]
  note at_gun = timers_rate_limit [where i = 1 and j = 5 and cs = gun_run and s = fresh]
  note at_wave = timers_rate_limit [where i = 3 and j = 5 and cs = wave_run and s = fresh]
  have "fst (yaw_run ! 1) + LLLEAP_YAW_INTERVAL \<le> fst (yaw_run ! 3)"
    using at_yaw y len by simp
  moreover have "fst (gun_run ! 1) + LLLEAP_CHAT_MSG_INTERVAL \<le> fst (gun_run ! 5)"
    using at_gun c len by simp
  moreover have "fst (wave_run ! 3) + LLLEAP_GESTURE_INTERVAL \<le> fst (wave_run ! 5)"
    using at_wave g len by simp
  ultimately show ?thesis using y c g by blast
qed

subsection \<open>Stopping the flight\<close>

lemma flight_started_iff:
  "flight_started (snd (modeFlyingControlTest now f hands s)) =
     (length hands = 1 \<and> 2 < length (fingers (hands ! 0)) \<and> \<not> f)"
  by (auto simp add: flight_started_def mode_defs Let_def case_prod_beta
      checkExpirationAndReset_def)

lemma flight_started_counter:
  "flight_started (snd (modeFlyingControlTest now f hands s)) \<Longrightarrow>
     sLMFlyingHysteresis (fst (modeFlyingControlTest now f hands s)) = 5"
  by (auto simp add: flight_started_def mode_defs Let_def case_prod_beta
      checkExpirationAndReset_def split: if_splits)

lemma flight_stopped_step:
  "flight_stopped (snd (modeFlyingControlTest now f hands s)) \<Longrightarrow>
     stop_condition f hands \<and> sLMFlyingHysteresis s \<le> 1
     \<and> sLMFlyingHysteresis (fst (modeFlyingControlTest now f hands s)) \<le> 0"
  by (auto simp add: flight_stopped_def stop_condition_def mode_defs Let_def case_prod_beta
      checkExpirationAndReset_def split: if_splits)

lemma counter_le_5:
  "sLMFlyingHysteresis s \<le> 5 \<Longrightarrow>
     sLMFlyingHysteresis (fst (modeFlyingControlTest now f hands s)) \<le> 5"
  by (auto simp add: mode_defs Let_def case_prod_beta checkExpirationAndReset_def split: if_splits)

lemma counter_step:
  "sLMFlyingHysteresis s \<le> 5 \<Longrightarrow> sLMFlyingHysteresis s
     \<le> sLMFlyingHysteresis (fst (modeFlyingControlTest now f hands s))
         + (if stop_condition f hands then 1 else 0)"
  by (auto simp add: stop_condition_def mode_defs Let_def case_prod_beta
      checkExpirationAndReset_def split: if_splits)

lemma counter_bounds_stops:
  "sLMFlyingHysteresis s \<le> 5 \<Longrightarrow> k < length evals \<Longrightarrow> flight_stopped (flying_evals evals s ! k) \<Longrightarrow>
     sLMFlyingHysteresis s
       \<le> int (length (filter (\<lambda>x. stop_condition (fst (snd x)) (snd (snd x))) (take (Suc k) evals)))"
proof (induction evals arbitrary: s k)
  case Nil
  then show ?case by simp
next
  case (Cons ev evals)
  obtain now f hands where ev: "ev = (now, f, hands)" by (cases ev)
  show ?case
  proof (cases k)
    case 0
    with Cons.prems ev have "flight_stopped (snd (modeFlyingControlTest now f hands s))" by simp
    from flight_stopped_step [OF this] show ?thesis using 0 ev by simp
  next
    case (Suc k')
    with Cons.prems ev
    have "k' < length evals"
      and "flight_stopped (flying_evals evals (fst (modeFlyingControlTest now f hands s)) ! k')"
      by simp_all
    from Cons.IH [OF counter_le_5 [OF Cons.prems(1)] this] counter_step [OF Cons.prems(1), of now f hands]
    show ?thesis using Suc ev by (simp split: if_splits)
  qed
qed

lemma flying_evals_hover:
  "flying_evals hover_evals (fst (modeFlyingControlTest 0 False [open_hand] fresh)) =
     [Invoked ModeFlyingControlTest]
     # [Invoked ModeFlyingControlTest]
     # [Invoked ModeFlyingControlTest, SetControlFlags [AGENT_CONTROL_AT_POS],
        ClearControlFlags [AGENT_CONTROL_FAST_UP, AGENT_CONTROL_UP_POS, AGENT_CONTROL_UP_NEG]]
     # [Invoked ModeFlyingControlTest]
     # [Invoked ModeFlyingControlTest]
     # [Invoked ModeFlyingControlTest, Log ''LM stop flying - look ma, no hands!'',
        SetFlying False]
     # []"
  by (simp add: hover_evals_def open_hand_def fresh_def LLLMImpl_new_def
        mode_defs Let_def hand_with_def still_finger_def checkExpirationAndReset_def
        setTimerExpirySec_def LLLEAP_YAW_INTERVAL_def)

lemma started_hover:
  "flight_started (snd (modeFlyingControlTest 0 False [open_hand] fresh))
   \<and> sLMFlyingHysteresis (fst (modeFlyingControlTest 0 False [open_hand] fresh)) = 5"
  by (simp add: flight_started_def open_hand_def fresh_def LLLMImpl_new_def
        mode_defs Let_def hand_with_def)

lemma flight_stopped_how:
  "flight_stopped (snd (modeFlyingControlTest now f hands s)) \<Longrightarrow>
     (if hands = []
      then sLMFlyingHysteresis s = 1
           \<and> sLMFlyingHysteresis (fst (modeFlyingControlTest now f hands s)) = 0
      else sLMFlyingHysteresis s \<le> 0
           \<and> sLMFlyingHysteresis (fst (modeFlyingControlTest now f hands s))
               = sLMFlyingHysteresis s)"
  by (auto simp add: flight_stopped_def mode_defs Let_def case_prod_beta
      checkExpirationAndReset_def split: if_splits)

lemma counter_without_stop_condition:
  "\<not> stop_condition f hands \<Longrightarrow>
     sLMFlyingHysteresis (fst (modeFlyingControlTest now f hands s)) =
       (if flight_started (snd (modeFlyingControlTest now f hands s)) then 5
        else sLMFlyingHysteresis s)"
  by (auto simp add: flight_started_def stop_condition_def mode_defs Let_def case_prod_beta
      checkExpirationAndReset_def split: if_splits)

lemma counter_with_stop_condition:
  "stop_condition f hands \<Longrightarrow>
     sLMFlyingHysteresis (fst (modeFlyingControlTest now f hands s)) =
       (if 0 < sLMFlyingHysteresis s then sLMFlyingHysteresis s - 1
        else sLMFlyingHysteresis s)"
  by (auto simp add: stop_condition_def mode_defs Let_def case_prod_beta
      checkExpirationAndReset_def split: if_splits)

lemma fist_stops_at_once:
  "stop_condition True [hand_with []]
   \<and> sLMFlyingHysteresis fresh = 0
   \<and> flight_stopped (snd (modeFlyingControlTest 1 True [hand_with []] fresh))
   \<and> sLMFlyingHysteresis (fst (modeFlyingControlTest 1 True [hand_with []] fresh)) = 0"
  by (simp add: stop_condition_def flight_stopped_def fresh_def LLLMImpl_new_def
        mode_defs Let_def hand_with_def checkExpirationAndReset_def
        setTimerExpirySec_def LLLEAP_YAW_INTERVAL_def)

text \<open>
  C8.  In \<open>modeFlyingControlTest\<close> a counter delays the stop of the flight.
  \<^item> The function starts the flight exactly when there is one hand with more than two
    fingers and the agent does not fly, and then sets the counter to 5.
  \<^item> It stops the flight only in an evaluation whose stop condition holds (the agent
    flies and there is no hand, or one hand without fingers), and the counter is not
    positive after that evaluation.  With no hand, that evaluation takes the counter from
    1 to 0; with one hand without fingers, it finds the counter not positive and leaves it
    as it is.
  \<^item> An evaluation whose stop condition holds lowers a positive counter by one and leaves
    any other counter as it is.  An evaluation whose stop condition fails does not count
    down: it sets the counter to 5 when it starts the flight, and leaves it as it is
    otherwise.
  \<^item> So once the counter is 5, the flight is not stopped before the stop condition has
    held in at least five evaluations, the stopping one included.  These five need not
    follow one another.
\<close>

theorem flight_stop_hysteresis:
  "flight_started (snd (modeFlyingControlTest now f hands s)) =
     (length hands = 1 \<and> 2 < length (fingers (hands ! 0)) \<and> \<not> f)
   \<and> (flight_started (snd (modeFlyingControlTest now f hands s)) \<longrightarrow>
        sLMFlyingHysteresis (fst (modeFlyingControlTest now f hands s)) = 5)
   \<and> (flight_stopped (snd (modeFlyingControlTest now f hands s)) \<longrightarrow>
        stop_condition f hands
        \<and> sLMFlyingHysteresis (fst (modeFlyingControlTest now f hands s)) \<le> 0
        \<and> (if hands = []
            then sLMFlyingHysteresis s = 1
                 \<and> sLMFlyingHysteresis (fst (modeFlyingControlTest now f hands s)) = 0
            else sLMFlyingHysteresis s \<le> 0
                 \<and> sLMFlyingHysteresis (fst (modeFlyingControlTest now f hands s))
                     = sLMFlyingHysteresis s))
   \<and> (stop_condition f hands \<longrightarrow>
        sLMFlyingHysteresis (fst (modeFlyingControlTest now f hands s)) =
          (if 0 < sLMFlyingHysteresis s then sLMFlyingHysteresis s - 1
           else sLMFlyingHysteresis s))
   \<and> (\<not> stop_condition f hands \<longrightarrow>
        sLMFlyingHysteresis (fst (modeFlyingControlTest now f hands s)) =
          (if flight_started (snd (modeFlyingControlTest now f hands s)) then 5
           else sLMFlyingHysteresis s))
   \<and> (sLMFlyingHysteresis s = 5 \<and> k < length evals
        \<and> flight_stopped (flying_evals evals s ! k) \<longrightarrow>
        5 \<le> length (filter (\<lambda>x. stop_condition (fst (snd x)) (snd (snd x)))
                      (take (Suc k) evals)))"
proof -
  have "5 \<le> length (filter (\<lambda>x. stop_condition (fst (snd x)) (snd (snd x)))
                      (take (Suc k) evals))"
    if "sLMFlyingHysteresis s = 5" "k < length evals" "flight_stopped (flying_evals evals s ! k)"
    using counter_bounds_stops [of s k evals] that by simp
  then show ?thesis
    using flight_started_iff [of now f hands s] flight_started_counter [of now f hands s]
      flight_stopped_step [of now f hands s] flight_stopped_how [of now f hands s]
      counter_with_stop_condition [of f hands now s]
      counter_without_stop_condition [of f hands now s]
    by blast
qed

theorem flight_stop_hysteresis_witness:
  "flight_started (snd (modeFlyingControlTest 0 False [open_hand] fresh))
   \<and> sLMFlyingHysteresis (fst (modeFlyingControlTest 0 False [open_hand] fresh)) = 5
   \<and> flight_stopped (snd (modeFlyingControlTest 1 True [hand_with []] fresh))
   \<and> sLMFlyingHysteresis (fst (modeFlyingControlTest 1 True [hand_with []] fresh))
       = sLMFlyingHysteresis fresh
   \<and> sLMFlyingHysteresis
       (fst (modeFlyingControlTest 1 True [] (fresh\<lparr>sLMFlyingHysteresis := 3\<rparr>))) = 2
   \<and> sLMFlyingHysteresis
       (fst (modeFlyingControlTest 1 True [open_hand] (fresh\<lparr>sLMFlyingHysteresis := 3\<rparr>))) = 3
   \<and> flight_stopped
        (flying_evals hover_evals (fst (modeFlyingControlTest 0 False [open_hand] fresh)) ! 5)
   \<and> 5 \<le> length (filter (\<lambda>x. stop_condition (fst (snd x)) (snd (snd x)))
                     (take (Suc 5) hover_evals))"
proof -
  note at_start = flight_stop_hysteresis
      [where now = 0 and f = False and hands = "[open_hand]" and s = fresh]
  note at_fist = flight_stop_hysteresis
      [where now = 1 and f = True and hands = "[hand_with []]" and s = fresh]
  note at_none = flight_stop_hysteresis
      [where now = 1 and f = True and hands = "[]" and s = "fresh\<lparr>sLMFlyingHysteresis := 3\<rparr>"]
  note at_open = flight_stop_hysteresis
      [where now = 1 and f = True and hands = "[open_hand]"
         and s = "fresh\<lparr>sLMFlyingHysteresis := 3\<rparr>"]
  note at_hover = flight_stop_hysteresis
      [where s = "fst (modeFlyingControlTest 0 False [open_hand] fresh)" and k = 5
         and evals = hover_evals]
  have started: "flight_started (snd (modeFlyingControlTest 0 False [open_hand] fresh))"
    unfolding at_start [THEN conjunct1] by (simp add: open_hand_def hand_with_def)
  with at_start
  have five: "sLMFlyingHysteresis (fst (modeFlyingControlTest 0 False [open_hand] fresh)) = 5"
    by blast
  have fist: "flight_stopped (snd (modeFlyingControlTest 1 True [hand_with []] fresh))"
    using fist_stops_at_once by blast
  with at_fist
  have kept: "sLMFlyingHysteresis (fst (modeFlyingControlTest 1 True [hand_with []] fresh))
       = sLMFlyingHysteresis fresh"
    by simp
  have "stop_condition True []"
    by (simp add: stop_condition_def)
  with at_none
  have lowered: "sLMFlyingHysteresis
       (fst (modeFlyingControlTest 1 True [] (fresh\<lparr>sLMFlyingHysteresis := 3\<rparr>))) = 2"
    by simp
  have "\<not> stop_condition True [open_hand]"
    and "\<not> flight_started
           (snd (modeFlyingControlTest 1 True [open_hand] (fresh\<lparr>sLMFlyingHysteresis := 3\<rparr>)))"
    by (simp_all add: stop_condition_def open_hand_def hand_with_def flight_started_iff)
  with at_open
  have unchanged: "sLMFlyingHysteresis
       (fst (modeFlyingControlTest 1 True [open_hand] (fresh\<lparr>sLMFlyingHysteresis := 3\<rparr>))) = 3"
    by simp
  have stop: "flight_stopped
        (flying_evals hover_evals (fst (modeFlyingControlTest 0 False [open_hand] fresh)) ! 5)"
    by (simp add: flying_evals_hover flight_stopped_def)
  have len: "5 < length hover_evals"
    by (simp add: hover_evals_def)
  from at_hover five stop len
  have "5 \<le> length (filter (\<lambda>x. stop_condition (fst (snd x)) (snd (snd x)))
                     (take (Suc 5) hover_evals))"
    by blast
  with started five fist kept lowered unchanged stop show ?thesis by blast
qed

text \<open>
  Three points at which the code departs from a stop that waits for five stop-condition
  evaluations in a row, each ending with its own decrement.
  \<^item> The stop condition need not hold five times in a row.  After a start, with no hand
    twice, an open hand, and no hand three times, the flight is stopped in the sixth
    evaluation, and no five successive evaluations of the sequence satisfy the stop
    condition.
  \<^item> The stopping evaluation need not decrement.  With the agent flying, one hand
    without fingers and the counter at 0, the flight is stopped and the counter stays 0.
  \<^item> The counter need not have been at 5.  In the same evaluation the counter is 0 as
    the program starts it (the agent took off by other means), and the flight is stopped
    in the first evaluation whose stop condition holds.
\<close>

theorem flight_stop_counterexample:
  "flight_started (snd (modeFlyingControlTest 0 False [open_hand] fresh))
   \<and> flight_stopped
        (flying_evals hover_evals (fst (modeFlyingControlTest 0 False [open_hand] fresh)) ! 5)
   \<and> length hover_evals = 6
   \<and> \<not> five_consecutive_stops hover_evals 4
   \<and> \<not> five_consecutive_stops hover_evals 5
   \<and> stop_condition True [hand_with []]
   \<and> sLMFlyingHysteresis (LLLMImpl_new 0 7) = 0
   \<and> sLMFlyingHysteresis fresh = 0
   \<and> flight_stopped (flying_evals [(1, True, [hand_with []])] fresh ! 0)
   \<and> sLMFlyingHysteresis (fst (modeFlyingControlTest 1 True [hand_with []] fresh))
       = sLMFlyingHysteresis fresh"
proof -
  have "flight_stopped
        (flying_evals hover_evals (fst (modeFlyingControlTest 0 False [open_hand] fresh)) ! 5)"
    by (simp add: flying_evals_hover flight_stopped_def)
  moreover have "length hover_evals = 6"
    by (simp add: hover_evals_def)
  moreover have "\<not> five_consecutive_stops hover_evals 4"
    and "\<not> five_consecutive_stops hover_evals 5"
    by (simp_all add: five_consecutive_stops_def hover_evals_def stop_condition_def
        open_hand_def hand_with_def)
  moreover have "sLMFlyingHysteresis (LLLMImpl_new 0 7) = 0"
    by (simp add: LLLMImpl_new_def)
  moreover have "flight_stopped (flying_evals [(1, True, [hand_with []])] fresh ! 0)"
    using fist_stops_at_once by simp
  ultimately show ?thesis using started_hover fist_stops_at_once by simp
qed

subsection \<open>Counts before device data\<close>

text \<open>
  C3.  The claim is that every mode function checks the hand and finger counts before it
  uses device data, so that no quotient is taken by a zero count.  \<open>modeDumpDebugInfo\<close>
  does: it averages under \<open>num_fingers >= 1\<close>.  \<open>modeMoveAndCamTest1\<close> does not: it
  divides the summed tip positions by \<open>num_fingers\<close> right after the loop, before it
  compares \<open>num_fingers\<close> with 1 and 2.  On one hand without fingers it therefore
  evaluates three quotients by zero (and then does nothing, the count being neither 1 nor
  2); it does so exactly on such inputs.  The other four mode functions never divide by zero.
\<close>

theorem modeMoveAndCamTest1_divides_by_zero:
  "snd (modeMoveAndCamTest1 [hand_with []] s) =
     [Invoked ModeMoveAndCamTest1, Fault DivideByZero, Fault DivideByZero, Fault DivideByZero]
   \<and> list_ex is_Fault (snd (modeMoveAndCamTest1 hands s)) =
       (length hands = 1 \<and> length (fingers (hands ! 0)) = 0)
   \<and> \<not> list_ex is_Fault (snd (modeDumpDebugInfo hands s))
   \<and> \<not> list_ex is_Fault (snd (modeFlyingControlTest now f hands s))
   \<and> \<not> list_ex is_Fault (snd (modeStreamDataToSL now hands s))
   \<and> \<not> list_ex is_Fault (snd (modeGestureDetection1 now hands s))"
proof -
  have 1: "snd (modeMoveAndCamTest1 [hand_with []] s) =
     [Invoked ModeMoveAndCamTest1, Fault DivideByZero, Fault DivideByZero, Fault DivideByZero]"
    by (simp add: modeMoveAndCamTest1_def Let_def case_prod_beta Vector_div_eq hand_with_def)
  have 2: "list_ex is_Fault (snd (modeMoveAndCamTest1 hands s)) =
       (length hands = 1 \<and> length (fingers (hands ! 0)) = 0)"
    by (auto simp add: mode_defs Let_def case_prod_beta Vector_div_eq)
  have 3: "\<not> list_ex is_Fault (snd (modeDumpDebugInfo hands s))"
    by (auto simp add: mode_defs Let_def case_prod_beta Vector_div_eq list_ex_map_const)
  have 4: "\<not> list_ex is_Fault (snd (modeFlyingControlTest now f hands s))"
    by (auto simp add: mode_defs Let_def case_prod_beta checkExpirationAndReset_def)
  have 5: "\<not> list_ex is_Fault (snd (modeStreamDataToSL now hands s))"
    by (auto simp add: mode_defs Let_def case_prod_beta)
  have 6: "\<not> list_ex is_Fault (snd (modeGestureDetection1 now hands s))"
    by (auto simp add: mode_defs Let_def case_prod_beta checkExpirationAndReset_def)
  show ?thesis using 1 2 3 4 5 6 by blast
qed

end
